theory Spec2Isabelle
  imports Main
begin

section \<open>Data model\<close>

text \<open>
  The authentication core of the job board: \<^verbatim>\<open>controllers/authController.js\<close>,
  \<^verbatim>\<open>controllers/userController.js\<close> (\<^verbatim>\<open>changeMyPassword\<close>), \<^verbatim>\<open>utils/jwt.js\<close>,
  \<^verbatim>\<open>utils/password.js\<close> and \<^verbatim>\<open>middlewares/auth.js\<close>.

  The handlers are \<^verbatim>\<open>async\<close> functions over three ambient things: the Prisma
  \<^verbatim>\<open>user\<close> table, the wall clock and the randomness of \<^verbatim>\<open>cuid()\<close> and of the bcrypt
  salt. Here the table is an explicit \<open>user list\<close> that every handler takes and
  returns, and the clock reading \<open>now\<close> (milliseconds, as \<^verbatim>\<open>Date.now()\<close>), the
  generated id \<open>cuid\<close> and the \<open>salt\<close> are explicit arguments. One handler call reads
  the clock once.
\<close>

datatype role = USER | ADMIN

text \<open>
  A compact JWT made by \<^verbatim>\<open>jwt.sign(payload, secret, {expiresIn})\<close> with the default
  HS256 is a function of the payload \<^verbatim>\<open>{userId, iat, exp}\<close> and of the key, nothing
  else: \<^verbatim>\<open>iat\<close> is the clock in whole seconds and the MAC is deterministic. \<open>Jwt\<close>
  is that string, symbolically; \<open>Opaque s\<close> is any other string \<open>s\<close> a request may
  carry (it never verifies).
\<close>

datatype jwt =
    Jwt (jwt_userId: string) (jwt_iat: nat) (jwt_exp: nat) (jwt_key: string)
  | Opaque string

text \<open>
  A bcrypt hash, symbolically: the salt and the bytes bcrypt actually digests (it reads
  at most the first 72 bytes of the password).
\<close>

datatype pwhash = Bcrypt string string

text \<open>The Prisma model \<^verbatim>\<open>User\<close>, field by field (\<^verbatim>\<open>id\<close> is \<open>idU\<close> here).\<close>

record user =
  idU :: string
  email :: string
  username :: "string option"
  password :: pwhash
  name :: "string option"
  avatar :: "string option"
  role :: role
  isActive :: bool
  resetToken :: "jwt option"
  resetTokenExpiry :: "nat option"
  refreshToken :: "jwt option"
  createdAt :: nat
  updatedAt :: nat

text \<open>JavaScript values that travel in a response body; an object keeps its keys in order.\<close>

datatype json =
    JNull
  | JUndefined
  | JBool bool
  | JNum nat
  | JStr string
  | JTok jwt
  | JHash pwhash
  | JRole role
  | JObj "(string \<times> json) list"

datatype cookie =
    SetCookie string jwt bool nat
  | ClearCookie string

record response =
  status :: nat
  success :: bool
  message :: string
  data :: json
  cookies :: "cookie list"

text \<open>\<^verbatim>\<open>process.env\<close>: both secrets are set; a time span is in seconds, \<open>None\<close> when unset.\<close>

record config =
  JWT_SECRET :: string
  JWT_REFRESH_SECRET :: string
  JWT_EXPIRES_IN :: "nat option"
  JWT_REFRESH_EXPIRES_IN :: "nat option"
  NODE_ENV :: "string option"

section \<open>utils/helpers.js\<close>

text \<open>
  Modelled from the spec: \<^verbatim>\<open>utils/helpers.js\<close> (\<^verbatim>\<open>successResponse\<close>, \<^verbatim>\<open>errorResponse\<close>,
  \<^verbatim>\<open>validatePassword\<close>, \<^verbatim>\<open>validateEmail\<close>) is not among the sources. Every response is
  \<^verbatim>\<open>{success, message, data}\<close> with a status code that defaults to 200; the password
  policy is a minimum length of 6. The e-mail format check is left open: the handlers
  that use it take it as the argument \<open>validateEmail\<close>.
\<close>

definition successResponse :: "json \<Rightarrow> string \<Rightarrow> nat \<Rightarrow> response" where
  "successResponse d m statusCode =
     \<lparr>status = statusCode, success = True, message = m, data = d, cookies = []\<rparr>"

definition errorResponse :: "string \<Rightarrow> nat \<Rightarrow> response" where
  "errorResponse m statusCode =
     \<lparr>status = statusCode, success = False, message = m, data = JNull, cookies = []\<rparr>"

definition validatePassword :: "string \<Rightarrow> bool" where
  "validatePassword p = (6 \<le> length p)"

text \<open>\<^verbatim>\<open>!x\<close> on an optional string: \<^verbatim>\<open>undefined\<close>, \<^verbatim>\<open>null\<close> and \<^verbatim>\<open>""\<close> are falsy.\<close>

definition falsy :: "string option \<Rightarrow> bool" where
  "falsy x = (case x of None \<Rightarrow> True | Some s \<Rightarrow> s = [])"

fun falsyTok :: "jwt option \<Rightarrow> bool" where
  "falsyTok None = True"
| "falsyTok (Some (Opaque s)) = (s = [])"
| "falsyTok (Some (Jwt u i e k)) = False"

section \<open>utils/password.js\<close>

definition hashPassword :: "string \<Rightarrow> string \<Rightarrow> pwhash" where
  "hashPassword salt p = Bcrypt salt (take 72 p)"

fun comparePassword :: "string \<Rightarrow> pwhash \<Rightarrow> bool" where
  "comparePassword p (Bcrypt salt d) = (take 72 p = d)"

section \<open>utils/jwt.js\<close>

datatype jwt_error = TokenExpiredError | JsonWebTokenError

definition jwt_sign :: "string \<Rightarrow> string \<Rightarrow> nat \<Rightarrow> nat \<Rightarrow> jwt" where
  "jwt_sign userId secret expiresIn now =
     Jwt userId (now div 1000) (now div 1000 + expiresIn) secret"

definition generateAccessToken :: "config \<Rightarrow> nat \<Rightarrow> string \<Rightarrow> jwt" where
  "generateAccessToken cfg now userId =
     jwt_sign userId (JWT_SECRET cfg)
       (case JWT_EXPIRES_IN cfg of None \<Rightarrow> 15 * 60 | Some n \<Rightarrow> n) now"

definition generateRefreshToken :: "config \<Rightarrow> nat \<Rightarrow> string \<Rightarrow> jwt" where
  "generateRefreshToken cfg now userId =
     jwt_sign userId (JWT_REFRESH_SECRET cfg)
       (case JWT_REFRESH_EXPIRES_IN cfg of None \<Rightarrow> 7 * 24 * 60 * 60 | Some n \<Rightarrow> n) now"

definition generateResetToken :: "config \<Rightarrow> nat \<Rightarrow> string \<Rightarrow> jwt" where
  "generateResetToken cfg now userId = jwt_sign userId (JWT_SECRET cfg) (60 * 60) now"

text \<open>
  \<^verbatim>\<open>jwt.verify\<close>: a malformed string or a MAC under another key throws
  \<^verbatim>\<open>JsonWebTokenError\<close>; a good MAC with \<^verbatim>\<open>exp\<close> at or before the clock (in seconds)
  throws \<^verbatim>\<open>TokenExpiredError\<close>; otherwise the payload comes back, of which the callers
  read \<^verbatim>\<open>userId\<close>.
\<close>

fun verifyToken :: "nat \<Rightarrow> jwt \<Rightarrow> string \<Rightarrow> jwt_error + string" where
  "verifyToken now (Opaque s) secret = Inl JsonWebTokenError"
| "verifyToken now (Jwt userId iat ex k) secret =
     (if k \<noteq> secret then Inl JsonWebTokenError
      else if ex \<le> now div 1000 then Inl TokenExpiredError
      else Inr userId)"

section \<open>The user table (Prisma)\<close>

text \<open>
  \<^verbatim>\<open>prisma.user.create\<close>: the columns \<^verbatim>\<open>id\<close>, \<^verbatim>\<open>email\<close> and \<^verbatim>\<open>username\<close> are unique, and
  a violation throws (\<open>None\<close>). \<open>newUser\<close> is the row with the defaults of the schema.
\<close>

definition newUser ::
  "nat \<Rightarrow> string \<Rightarrow> string \<Rightarrow> pwhash \<Rightarrow> string option \<Rightarrow> string option \<Rightarrow> user" where
  "newUser now cuid em hashed nm un =
     \<lparr>idU = cuid, email = em, username = un, password = hashed, name = nm,
      avatar = None, role = USER, isActive = True, resetToken = None,
      resetTokenExpiry = None, refreshToken = None,
      createdAt = now, updatedAt = now\<rparr>"

definition user_create ::
  "nat \<Rightarrow> string \<Rightarrow> string \<Rightarrow> pwhash \<Rightarrow> string option \<Rightarrow> string option \<Rightarrow> user list
     \<Rightarrow> (user \<times> user list) option" where
  "user_create now cuid em hashed nm un db =
     (if find (\<lambda>u. idU u = cuid \<or> email u = em \<or> (un \<noteq> None \<and> username u = un)) db \<noteq> None
      then None
      else let u = newUser now cuid em hashed nm un in Some (u, db @ [u]))"

text \<open>
  \<^verbatim>\<open>prisma.user.update({where: {id}, data})\<close>: throws (\<open>None\<close>) when no row has the id;
  \<^verbatim>\<open>@updatedAt\<close> stamps the row.
\<close>

definition user_update :: "nat \<Rightarrow> string \<Rightarrow> (user \<Rightarrow> user) \<Rightarrow> user list \<Rightarrow> user list option" where
  "user_update now uid f db =
     (case find (\<lambda>u. idU u = uid) db of
        None \<Rightarrow> None
      | Some _ \<Rightarrow> Some (map (\<lambda>u. if idU u = uid then (f u)\<lparr>updatedAt := now\<rparr> else u) db))"

text \<open>A row as the JavaScript object Prisma returns when nothing is selected.\<close>

definition jopt :: "('a \<Rightarrow> json) \<Rightarrow> 'a option \<Rightarrow> json" where
  "jopt f x = (case x of None \<Rightarrow> JNull | Some v \<Rightarrow> f v)"

definition toObject :: "user \<Rightarrow> (string \<times> json) list" where
  "toObject u =
     [(''id'', JStr (idU u)),
      (''email'', JStr (email u)),
      (''username'', jopt JStr (username u)),
      (''password'', JHash (password u)),
      (''name'', jopt JStr (name u)),
      (''avatar'', jopt JStr (avatar u)),
      (''role'', JRole (role u)),
      (''isActive'', JBool (isActive u)),
      (''resetToken'', jopt JTok (resetToken u)),
      (''resetTokenExpiry'', jopt JNum (resetTokenExpiry u)),
      (''refreshToken'', jopt JTok (refreshToken u)),
      (''createdAt'', JNum (createdAt u)),
      (''updatedAt'', JNum (updatedAt u))]"

text \<open>\<^verbatim>\<open>select: {...: true}\<close> keeps the named keys; a rest pattern drops the named keys.\<close>

definition select :: "string list \<Rightarrow> (string \<times> json) list \<Rightarrow> (string \<times> json) list" where
  "select ks obj = filter (\<lambda>kv. fst kv \<in> set ks) obj"

definition omit :: "string list \<Rightarrow> (string \<times> json) list \<Rightarrow> (string \<times> json) list" where
  "omit ks obj = filter (\<lambda>kv. fst kv \<notin> set ks) obj"

section \<open>controllers/authController.js\<close>

definition tokenCookies :: "config \<Rightarrow> jwt \<Rightarrow> jwt \<Rightarrow> cookie list" where
  "tokenCookies cfg accessToken newRefresh =
     [SetCookie ''accessToken'' accessToken (NODE_ENV cfg = Some ''production'') (15 * 60 * 1000),
      SetCookie ''refreshToken'' newRefresh (NODE_ENV cfg = Some ''production'')
        (7 * 24 * 60 * 60 * 1000)]"

definition register ::
  "(string \<Rightarrow> bool) \<Rightarrow> config \<Rightarrow> nat \<Rightarrow> string \<Rightarrow> string
     \<Rightarrow> string option \<Rightarrow> string option \<Rightarrow> string option \<Rightarrow> string option
     \<Rightarrow> user list \<Rightarrow> response \<times> user list" where
  "register validateEmail cfg now cuid salt em pw nm un db =
     (if falsy em \<or> falsy pw then (errorResponse ''Email and password are required'' 400, db)
      else if \<not> validateEmail (the em) then (errorResponse ''Invalid email format'' 400, db)
      else if \<not> validatePassword (the pw)
        then (errorResponse ''Password must be at least 6 characters'' 400, db)
      else if find (\<lambda>u. email u = the em) db \<noteq> None
        then (errorResponse ''Email already registered'' 400, db)
      else if \<not> falsy un \<and> find (\<lambda>u. username u = un) db \<noteq> None
        then (errorResponse ''Username already taken'' 400, db)
      else
        (case user_create now cuid (the em) (hashPassword salt (the pw)) nm un db of
           None \<Rightarrow> (errorResponse ''Registration failed'' 500, db)
         | Some (u, db1) \<Rightarrow>
             let accessToken = generateAccessToken cfg now (idU u);
                 newRefresh = generateRefreshToken cfg now (idU u)
             in (case user_update now (idU u) (\<lambda>r. r\<lparr>refreshToken := Some newRefresh\<rparr>) db1 of
                   None \<Rightarrow> (errorResponse ''Registration failed'' 500, db1)
                 | Some db2 \<Rightarrow>
                     ((successResponse
                         (JObj [(''user'', JObj (select [''id'', ''email'', ''username'', ''name'',
                                                        ''role'', ''createdAt''] (toObject u))),
                                (''accessToken'', JTok accessToken),
                                (''refreshToken'', JTok newRefresh)])
                         ''Registration successful'' 201)
                        \<lparr>cookies := tokenCookies cfg accessToken newRefresh\<rparr>, db2))))"

text \<open>
  A field of the JSON body as the handler meets it: missing (\<^verbatim>\<open>undefined\<close> or \<^verbatim>\<open>null\<close>), a
  string, or a value that is not a string (a number, a boolean, an array, an object), of
  which the handler only ever tests the truthiness. \<^verbatim>\<open>login\<close> checks no type: Prisma
  throws on a \<^verbatim>\<open>where: {email}\<close> that is not a string and \<^verbatim>\<open>bcrypt.compare\<close> throws on
  data that is not a string, and the \<^verbatim>\<open>catch\<close> answers 500 \<^verbatim>\<open>Login failed\<close>.
\<close>

datatype reqval = Missing | Text string | NotText bool

fun truthy :: "reqval \<Rightarrow> bool" where
  "truthy Missing = False"
| "truthy (Text s) = (s \<noteq> [])"
| "truthy (NotText b) = b"

fun ofText :: "string option \<Rightarrow> reqval" where
  "ofText None = Missing"
| "ofText (Some s) = Text s"

definition login_body ::
  "config \<Rightarrow> nat \<Rightarrow> reqval \<Rightarrow> reqval \<Rightarrow> user list \<Rightarrow> response \<times> user list" where
  "login_body cfg now em pw db =
     (if \<not> truthy em \<or> \<not> truthy pw
        then (errorResponse ''Email and password are required'' 400, db)
      else
        (case em of
           Text e \<Rightarrow>
             (case find (\<lambda>u. email u = e) db of
                None \<Rightarrow> (errorResponse ''Invalid email or password'' 401, db)
              | Some u \<Rightarrow>
                  if \<not> isActive u then (errorResponse ''Account is deactivated'' 401, db)
                  else
                    (case pw of
                       Text p \<Rightarrow>
                         if \<not> comparePassword p (password u)
                           then (errorResponse ''Invalid email or password'' 401, db)
                         else
                           let accessToken = generateAccessToken cfg now (idU u);
                               newRefresh = generateRefreshToken cfg now (idU u)
                           in (case user_update now (idU u)
                                      (\<lambda>r. r\<lparr>refreshToken := Some newRefresh\<rparr>) db of
                                 None \<Rightarrow> (errorResponse ''Login failed'' 500, db)
                               | Some db' \<Rightarrow>
                                   ((successResponse
                                       (JObj [(''user'',
                                               JObj (omit [''password'', ''refreshToken'']
                                                       (toObject u))),
                                              (''accessToken'', JTok accessToken),
                                              (''refreshToken'', JTok newRefresh)])
                                       ''Login successful'' 200)
                                      \<lparr>cookies := tokenCookies cfg accessToken newRefresh\<rparr>,
                                    db'))
                     | _ \<Rightarrow> (errorResponse ''Login failed'' 500, db)))
         | _ \<Rightarrow> (errorResponse ''Login failed'' 500, db)))"

text \<open>\<^verbatim>\<open>login\<close> on a body whose e-mail and password are strings or missing.\<close>

definition login ::
  "config \<Rightarrow> nat \<Rightarrow> string option \<Rightarrow> string option \<Rightarrow> user list \<Rightarrow> response \<times> user list" where
  "login cfg now em pw db = login_body cfg now (ofText em) (ofText pw) db"

text \<open>\<open>userId\<close> is \<^verbatim>\<open>req.user?.id\<close>, set by \<^verbatim>\<open>optionalAuth\<close> or left undefined.\<close>

definition logout :: "nat \<Rightarrow> string option \<Rightarrow> user list \<Rightarrow> response \<times> user list" where
  "logout now userId db =
     (if falsy userId
      then ((successResponse JNull ''Logout successful'' 200)
              \<lparr>cookies := [ClearCookie ''accessToken'', ClearCookie ''refreshToken'']\<rparr>, db)
      else
        (case user_update now (the userId) (\<lambda>r. r\<lparr>refreshToken := None\<rparr>) db of
           None \<Rightarrow> (errorResponse ''Logout failed'' 500, db)
         | Some db' \<Rightarrow>
             ((successResponse JNull ''Logout successful'' 200)
                \<lparr>cookies := [ClearCookie ''accessToken'', ClearCookie ''refreshToken'']\<rparr>, db')))"

text \<open>
  The handler \<^verbatim>\<open>refreshToken\<close> (the column has the name already). The presented token is
  \<^verbatim>\<open>req.cookies?.refreshToken || req.body.refreshToken\<close>.
\<close>

definition refreshToken_handler ::
  "config \<Rightarrow> nat \<Rightarrow> jwt option \<Rightarrow> jwt option \<Rightarrow> user list \<Rightarrow> response \<times> user list" where
  "refreshToken_handler cfg now cookieToken bodyToken db =
     (let presented = (if falsyTok cookieToken then bodyToken else cookieToken)
      in if falsyTok presented then (errorResponse ''Refresh token required'' 401, db)
      else
        (case verifyToken now (the presented) (JWT_REFRESH_SECRET cfg) of
           Inl TokenExpiredError \<Rightarrow> (errorResponse ''Refresh token expired'' 401, db)
         | Inl JsonWebTokenError \<Rightarrow> (errorResponse ''Invalid refresh token'' 401, db)
         | Inr userId \<Rightarrow>
             (case find (\<lambda>u. idU u = userId \<and> refreshToken u = presented) db of
                None \<Rightarrow> (errorResponse ''Invalid refresh token'' 401, db)
              | Some u \<Rightarrow>
                  if \<not> isActive u then (errorResponse ''Invalid refresh token'' 401, db)
                  else
                    let newAccessToken = generateAccessToken cfg now (idU u);
                        newRefreshToken = generateRefreshToken cfg now (idU u)
                    in (case user_update now (idU u)
                               (\<lambda>r. r\<lparr>refreshToken := Some newRefreshToken\<rparr>) db of
                          None \<Rightarrow> (errorResponse ''Token refresh failed'' 500, db)
                        | Some db' \<Rightarrow>
                            ((successResponse
                                (JObj [(''accessToken'', JTok newAccessToken),
                                       (''refreshToken'', JTok newRefreshToken)])
                                ''Token refreshed successfully'' 200)
                               \<lparr>cookies := tokenCookies cfg newAccessToken newRefreshToken\<rparr>,
                             db')))))"

definition forgotPassword ::
  "(string \<Rightarrow> bool) \<Rightarrow> config \<Rightarrow> nat \<Rightarrow> string option \<Rightarrow> user list \<Rightarrow> response \<times> user list" where
  "forgotPassword validateEmail cfg now em db =
     (if falsy em then (errorResponse ''Email is required'' 400, db)
      else if \<not> validateEmail (the em) then (errorResponse ''Invalid email format'' 400, db)
      else
        (case find (\<lambda>u. email u = the em) db of
           None \<Rightarrow> (successResponse JNull ''If email exists, reset link has been sent'' 200, db)
         | Some u \<Rightarrow>
             let newReset = generateResetToken cfg now (idU u);
                 newExpiry = now + 60 * 60 * 1000
             in (case user_update now (idU u)
                        (\<lambda>r. r\<lparr>resetToken := Some newReset, resetTokenExpiry := Some newExpiry\<rparr>) db of
                   None \<Rightarrow> (errorResponse ''Failed to process forgot password request'' 500, db)
                 | Some db' \<Rightarrow>
                     (successResponse
                        (JObj [(''resetToken'',
                                if NODE_ENV cfg = Some ''development'' then JTok newReset
                                else JUndefined)])
                        ''If email exists, reset link has been sent'' 200, db'))))"

definition resetPassword ::
  "config \<Rightarrow> nat \<Rightarrow> string \<Rightarrow> jwt option \<Rightarrow> string option \<Rightarrow> user list \<Rightarrow> response \<times> user list" where
  "resetPassword cfg now salt token newPassword db =
     (if falsyTok token \<or> falsy newPassword
        then (errorResponse ''Token and new password are required'' 400, db)
      else if \<not> validatePassword (the newPassword)
        then (errorResponse ''Password must be at least 6 characters'' 400, db)
      else
        (case verifyToken now (the token) (JWT_SECRET cfg) of
           Inl e \<Rightarrow> (errorResponse ''Invalid or expired reset token'' 400, db)
         | Inr userId \<Rightarrow>
             (case find (\<lambda>u. idU u = userId \<and> resetToken u = token \<and>
                              (case resetTokenExpiry u of None \<Rightarrow> False | Some t \<Rightarrow> now < t)) db of
                None \<Rightarrow> (errorResponse ''Invalid or expired reset token'' 400, db)
              | Some u \<Rightarrow>
                  (case user_update now (idU u)
                          (\<lambda>r. r\<lparr>password := hashPassword salt (the newPassword),
                                 resetToken := None, resetTokenExpiry := None,
                                 refreshToken := None\<rparr>) db of
                     None \<Rightarrow> (errorResponse ''Password reset failed'' 500, db)
                   | Some db' \<Rightarrow> (successResponse JNull ''Password reset successful'' 200, db')))))"

section \<open>controllers/userController.js\<close>

text \<open>\<open>reqUserId\<close> is \<^verbatim>\<open>req.user.id\<close>: the route runs \<^verbatim>\<open>authenticate\<close> first.\<close>

definition changeMyPassword ::
  "nat \<Rightarrow> string \<Rightarrow> string \<Rightarrow> string option \<Rightarrow> string option \<Rightarrow> user list
     \<Rightarrow> response \<times> user list" where
  "changeMyPassword now salt reqUserId currentPassword newPassword db =
     (if falsy currentPassword \<or> falsy newPassword
        then (errorResponse ''Current password and new password are required'' 400, db)
      else if \<not> validatePassword (the newPassword)
        then (errorResponse ''New password must be at least 6 characters'' 400, db)
      else
        (case find (\<lambda>u. idU u = reqUserId) db of
           None \<Rightarrow> (errorResponse ''User not found'' 404, db)
         | Some u \<Rightarrow>
             if \<not> comparePassword (the currentPassword) (password u)
               then (errorResponse ''Current password is incorrect'' 400, db)
             else
               (case user_update now reqUserId
                       (\<lambda>r. r\<lparr>password := hashPassword salt (the newPassword),
                              refreshToken := None\<rparr>) db of
                  None \<Rightarrow> (errorResponse ''Failed to change password'' 500, db)
                | Some db' \<Rightarrow>
                    ((successResponse JNull ''Password changed successfully. Please login again.'' 200)
                       \<lparr>cookies := [ClearCookie ''accessToken'', ClearCookie ''refreshToken'']\<rparr>,
                     db'))))"

section \<open>middlewares/auth.js\<close>

text \<open>
  \<open>bearer\<close> is \<^verbatim>\<open>req.headers.authorization?.split(' ')[1]\<close>, \<open>cookieToken\<close> is
  \<^verbatim>\<open>req.cookies?.accessToken\<close>. \<^verbatim>\<open>authenticate\<close> answers 401 or attaches the user to the
  request (\<open>Inr\<close>); \<^verbatim>\<open>optionalAuth\<close> attaches the user or nothing. The source attaches six
  selected columns of the row (\<^verbatim>\<open>id\<close>, \<^verbatim>\<open>email\<close>, \<^verbatim>\<open>username\<close>, \<^verbatim>\<open>name\<close>, \<^verbatim>\<open>role\<close>,
  \<^verbatim>\<open>isActive\<close>); the model hands on the row they are read from.
\<close>

definition authenticate ::
  "config \<Rightarrow> nat \<Rightarrow> jwt option \<Rightarrow> jwt option \<Rightarrow> user list \<Rightarrow> response + user" where
  "authenticate cfg now bearer cookieToken db =
     (let token = (if falsyTok bearer then cookieToken else bearer)
      in if falsyTok token then Inl (errorResponse ''Access token required'' 401)
      else
        (case verifyToken now (the token) (JWT_SECRET cfg) of
           Inl TokenExpiredError \<Rightarrow> Inl (errorResponse ''Token expired'' 401)
         | Inl JsonWebTokenError \<Rightarrow> Inl (errorResponse ''Invalid token'' 401)
         | Inr userId \<Rightarrow>
             (case find (\<lambda>u. idU u = userId) db of
                None \<Rightarrow> Inl (errorResponse ''User not found or inactive'' 401)
              | Some u \<Rightarrow>
                  if \<not> isActive u then Inl (errorResponse ''User not found or inactive'' 401)
                  else Inr u)))"

definition optionalAuth ::
  "config \<Rightarrow> nat \<Rightarrow> jwt option \<Rightarrow> jwt option \<Rightarrow> user list \<Rightarrow> user option" where
  "optionalAuth cfg now bearer cookieToken db =
     (let token = (if falsyTok bearer then cookieToken else bearer)
      in if falsyTok token then None
      else
        (case verifyToken now (the token) (JWT_SECRET cfg) of
           Inl e \<Rightarrow> None
         | Inr userId \<Rightarrow>
             (case find (\<lambda>u. idU u = userId) db of
                None \<Rightarrow> None
              | Some u \<Rightarrow> if isActive u then Some u else None)))"

section \<open>The error kinds of the specification, as the responses the handlers send\<close>



definition SessionInvalid :: response where
  "SessionInvalid = errorResponse ''Invalid refresh token'' 401"

definition SessionExpired :: response where
  "SessionExpired = errorResponse ''Refresh token expired'' 401"

definition InvalidOrExpiredResetToken :: response where
  "InvalidOrExpiredResetToken = errorResponse ''Invalid or expired reset token'' 400"

section \<open>A small deployment to evaluate on\<close>

definition cfg0 :: config where
  "cfg0 = \<lparr>JWT_SECRET = ''access-secret'', JWT_REFRESH_SECRET = ''refresh-secret'',
           JWT_EXPIRES_IN = None, JWT_REFRESH_EXPIRES_IN = None,
           NODE_ENV = Some ''production''\<rparr>"

definition hasAt :: "string \<Rightarrow> bool" where
  "hasAt e = (CHR ''@'' \<in> set e)"

text \<open>
  Alice logged in at 2000 ms and asked for a password reset at 3000 ms; Bob's account
  has been deactivated.
\<close>

definition alice :: user where
  "alice = \<lparr>idU = ''u1'', email = ''a@b.com'', username = Some ''alice'',
            password = hashPassword ''s1'' ''secret1'', name = Some ''A'', avatar = None,
            role = USER, isActive = True,
            resetToken = Some (generateResetToken cfg0 3000 ''u1''),
            resetTokenExpiry = Some (3000 + 60 * 60 * 1000),
            refreshToken = Some (generateRefreshToken cfg0 2000 ''u1''),
            createdAt = 1000, updatedAt = 3000\<rparr>"

definition bob :: user where
  "bob = \<lparr>idU = ''u2'', email = ''bob@x.io'', username = None,
          password = hashPassword ''s2'' ''hunter22'', name = None, avatar = None,
          role = USER, isActive = False,
          resetToken = None, resetTokenExpiry = None, refreshToken = None,
          createdAt = 1500, updatedAt = 1500\<rparr>"

definition db0 :: "user list" where
  "db0 = [alice, bob]"

section \<open>What a client reads\<close>

text \<open>
  The body goes out as JSON, and \<^verbatim>\<open>JSON.stringify\<close> leaves out the members of an object
  whose value is \<^verbatim>\<open>undefined\<close> (one level is all these handlers build).
\<close>

definition onWire :: "json \<Rightarrow> json" where
  "onWire v = (case v of JObj kvs \<Rightarrow> JObj (filter (\<lambda>kv. snd kv \<noteq> JUndefined) kvs) | _ \<Rightarrow> v)"

section \<open>Reading a response\<close>

text \<open>The \<^verbatim>\<open>user\<close> member of a response's data, and whether an object has a key.\<close>

definition hasKey :: "string \<Rightarrow> (string \<times> json) list \<Rightarrow> bool" where
  "hasKey k obj = (map_of obj k \<noteq> None)"

definition userOf :: "response \<Rightarrow> (string \<times> json) list" where
  "userOf r =
     (case data r of
        JObj kvs \<Rightarrow> (case map_of kvs ''user'' of Some (JObj obj) \<Rightarrow> obj | _ \<Rightarrow> [])
      | _ \<Rightarrow> [])"

section \<open>Sequences of requests\<close>

text \<open>
  One request to the authentication endpoints, with the clock reading (and the id or
  salt) its handler gets; \<open>run\<close> serves a list of requests one after the other.
\<close>

datatype call =
    Register nat string string "string option" "string option" "string option" "string option"
  | Login nat "string option" "string option"
  | Logout nat "string option"
  | Refresh nat "jwt option" "jwt option"
  | ForgotPassword nat "string option"
  | ResetPassword nat string "jwt option" "string option"
  | ChangeMyPassword nat string string "string option" "string option"

fun clock :: "call \<Rightarrow> nat" where
  "clock (Register now cuid salt em pw nm un) = now"
| "clock (Login now em pw) = now"
| "clock (Logout now userId) = now"
| "clock (Refresh now cookieToken bodyToken) = now"
| "clock (ForgotPassword now em) = now"
| "clock (ResetPassword now salt token newPassword) = now"
| "clock (ChangeMyPassword now salt reqUserId currentPassword newPassword) = now"

fun handle :: "(string \<Rightarrow> bool) \<Rightarrow> config \<Rightarrow> call \<Rightarrow> user list \<Rightarrow> response \<times> user list" where
  "handle ve cfg (Register now cuid salt em pw nm un) db = register ve cfg now cuid salt em pw nm un db"
| "handle ve cfg (Login now em pw) db = login cfg now em pw db"
| "handle ve cfg (Logout now userId) db = logout now userId db"
| "handle ve cfg (Refresh now cookieToken bodyToken) db =
     refreshToken_handler cfg now cookieToken bodyToken db"
| "handle ve cfg (ForgotPassword now em) db = forgotPassword ve cfg now em db"
| "handle ve cfg (ResetPassword now salt token newPassword) db =
     resetPassword cfg now salt token newPassword db"
| "handle ve cfg (ChangeMyPassword now salt reqUserId currentPassword newPassword) db =
     changeMyPassword now salt reqUserId currentPassword newPassword db"

fun run :: "(string \<Rightarrow> bool) \<Rightarrow> config \<Rightarrow> call list \<Rightarrow> user list \<Rightarrow> user list" where
  "run ve cfg [] db = db"
| "run ve cfg (k # ks) db = run ve cfg ks (snd (handle ve cfg k db))"

text \<open>No row of the user \<open>uid\<close> stores \<open>t\<close> as its refresh token: the lookup of the refresh handler finds nothing.\<close>

definition notStored :: "string \<Rightarrow> jwt \<Rightarrow> user list \<Rightarrow> bool" where
  "notStored uid t db = (find (\<lambda>u. idU u = uid \<and> refreshToken u = Some t) db = None)"

text \<open>No row of the user \<open>uid\<close> stores \<open>t\<close> as its reset token.\<close>

definition resetNotStored :: "string \<Rightarrow> jwt \<Rightarrow> user list \<Rightarrow> bool" where
  "resetNotStored uid t db = (find (\<lambda>u. idU u = uid \<and> resetToken u = Some t) db = None)"

section \<open>Facts about the table\<close>

lemma find_Some_set: "find P xs = Some x \<Longrightarrow> x \<in> set xs"
  by (induction xs) (simp_all split: if_splits)

lemma find_Some_holds: "find P xs = Some x \<Longrightarrow> P x"
  by (induction xs) (simp_all split: if_splits)

lemma find_id_of_member: "u \<in> set db \<Longrightarrow> find (\<lambda>v. idU v = idU u) db \<noteq> None"
  unfolding find_None_iff by blast

lemma user_update_member:
  "u \<in> set db \<Longrightarrow>
   user_update now (idU u) f db =
     Some (map (\<lambda>r. if idU r = idU u then (f r)\<lparr>updatedAt := now\<rparr> else r) db)"
  using find_id_of_member [of u db] unfolding user_update_def
  by (cases "find (\<lambda>v. idU v = idU u) db") simp_all

lemma omit_toObject:
  "omit [''password'', ''refreshToken''] (toObject u) =
     [(''id'', JStr (idU u)),
      (''email'', JStr (email u)),
      (''username'', jopt JStr (username u)),
      (''name'', jopt JStr (name u)),
      (''avatar'', jopt JStr (avatar u)),
      (''role'', JRole (role u)),
      (''isActive'', JBool (isActive u)),
      (''resetToken'', jopt JTok (resetToken u)),
      (''resetTokenExpiry'', jopt JNum (resetTokenExpiry u)),
      (''createdAt'', JNum (createdAt u)),
      (''updatedAt'', JNum (updatedAt u))]"
  by (simp add: omit_def toObject_def)

section \<open>Login\<close>

lemma login_unfold:
  "login cfg now em pw db =
     (if falsy em \<or> falsy pw then (errorResponse ''Email and password are required'' 400, db)
      else
        (case find (\<lambda>u. email u = the em) db of
           None \<Rightarrow> (errorResponse ''Invalid email or password'' 401, db)
         | Some u \<Rightarrow>
             if \<not> isActive u then (errorResponse ''Account is deactivated'' 401, db)
             else if \<not> comparePassword (the pw) (password u)
               then (errorResponse ''Invalid email or password'' 401, db)
             else
               let accessToken = generateAccessToken cfg now (idU u);
                   newRefresh = generateRefreshToken cfg now (idU u)
               in (case user_update now (idU u) (\<lambda>r. r\<lparr>refreshToken := Some newRefresh\<rparr>) db of
                     None \<Rightarrow> (errorResponse ''Login failed'' 500, db)
                   | Some db' \<Rightarrow>
                       ((successResponse
                           (JObj [(''user'', JObj (omit [''password'', ''refreshToken''] (toObject u))),
                                  (''accessToken'', JTok accessToken),
                                  (''refreshToken'', JTok newRefresh)])
                           ''Login successful'' 200)
                          \<lparr>cookies := tokenCookies cfg accessToken newRefresh\<rparr>, db'))))"
  by (cases em; cases pw)
     (simp_all add: login_def login_body_def falsy_def Let_def split: option.splits)

lemma login_success:
  assumes "\<not> falsy em" and "\<not> falsy pw"
    and "find (\<lambda>u. email u = the em) db = Some u"
    and "isActive u" and "comparePassword (the pw) (password u)"
  shows "login cfg now em pw db =
     ((successResponse
         (JObj [(''user'', JObj (omit [''password'', ''refreshToken''] (toObject u))),
                (''accessToken'', JTok (generateAccessToken cfg now (idU u))),
                (''refreshToken'', JTok (generateRefreshToken cfg now (idU u)))])
         ''Login successful'' 200)
        \<lparr>cookies := tokenCookies cfg (generateAccessToken cfg now (idU u))
                     (generateRefreshToken cfg now (idU u))\<rparr>,
      map (\<lambda>r. if idU r = idU u
               then r\<lparr>refreshToken := Some (generateRefreshToken cfg now (idU u)),
                      updatedAt := now\<rparr>
               else r) db)"
proof -
  from assms(3) have m: "u \<in> set db" by (rule find_Some_set)
  show ?thesis unfolding login_unfold Let_def
    by (simp only: assms user_update_member [OF m] simp_thms if_False if_True
          option.case prod.case)
qed

text \<open>
  C9. The user object of a successful login is the stored row as it was read, without
  the keys \<^verbatim>\<open>password\<close> and \<^verbatim>\<open>refreshToken\<close> and with every other column: a pending
  \<^verbatim>\<open>resetToken\<close> and its \<^verbatim>\<open>resetTokenExpiry\<close> are sent back as they are stored.
\<close>

theorem login_user_object_keeps_reset_fields:
  assumes "\<not> falsy em" and "\<not> falsy pw"
    and "find (\<lambda>u. email u = the em) db = Some u"
    and "isActive u" and "comparePassword (the pw) (password u)"
  shows "status (fst (login cfg now em pw db)) = 200 \<and>
     data (fst (login cfg now em pw db)) =
       JObj [(''user'',
              JObj [(''id'', JStr (idU u)),
                    (''email'', JStr (email u)),
                    (''username'', jopt JStr (username u)),
                    (''name'', jopt JStr (name u)),
                    (''avatar'', jopt JStr (avatar u)),
                    (''role'', JRole (role u)),
                    (''isActive'', JBool (isActive u)),
                    (''resetToken'', jopt JTok (resetToken u)),
                    (''resetTokenExpiry'', jopt JNum (resetTokenExpiry u)),
                    (''createdAt'', JNum (createdAt u)),
                    (''updatedAt'', JNum (updatedAt u))]),
             (''accessToken'', JTok (generateAccessToken cfg now (idU u))),
             (''refreshToken'', JTok (generateRefreshToken cfg now (idU u)))]"
  unfolding login_success [OF assms] omit_toObject
  by (simp add: successResponse_def)

theorem login_user_object_keeps_reset_fields_witness:
  "data (fst (login cfg0 5000 (Some ''a@b.com'') (Some ''secret1'') db0)) =
     JObj [(''user'',
            JObj [(''id'', JStr ''u1''),
                  (''email'', JStr ''a@b.com''),
                  (''username'', JStr ''alice''),
                  (''name'', JStr ''A''),
                  (''avatar'', JNull),
                  (''role'', JRole USER),
                  (''isActive'', JBool True),
                  (''resetToken'', JTok (Jwt ''u1'' 3 3603 ''access-secret'')),
                  (''resetTokenExpiry'', JNum 3603000),
                  (''createdAt'', JNum 1000),
                  (''updatedAt'', JNum 3000)]),
           (''accessToken'', JTok (Jwt ''u1'' 5 905 ''access-secret'')),
           (''refreshToken'', JTok (Jwt ''u1'' 5 604805 ''refresh-secret''))]"
proof -
  have h1: "\<not> falsy (Some ''a@b.com'')" and h2: "\<not> falsy (Some ''secret1'')"
    by (simp_all add: falsy_def)
  have h3: "find (\<lambda>u. email u = the (Some ''a@b.com'')) db0 = Some alice"
    by (simp add: db0_def alice_def)
  have h4: "isActive alice" by (simp add: alice_def)
  have h5: "comparePassword (the (Some ''secret1'')) (password alice)"
    by (simp add: alice_def hashPassword_def)
  from login_user_object_keeps_reset_fields [OF h1 h2 h3 h4 h5, of cfg0 5000]
  show ?thesis
    by (simp add: alice_def cfg0_def jopt_def generateAccessToken_def generateRefreshToken_def
        generateResetToken_def jwt_sign_def)
qed




lemma login_body_password_not_a_string:
  assumes "e \<noteq> []" and "find (\<lambda>u. email u = e) db = Some u" and "isActive u"
  shows "login_body cfg now (Text e) (NotText True) db = (errorResponse ''Login failed'' 500, db)"
  unfolding login_body_def
  by (simp only: assms truthy.simps simp_thms if_False if_True reqval.case option.case)




section \<open>Password reset requests\<close>

lemma forgotPassword_unknown_email:
  assumes "\<not> falsy em" and "validateEmail (the em)" and "find (\<lambda>u. email u = the em) db = None"
  shows "forgotPassword validateEmail cfg now em db =
           (successResponse JNull ''If email exists, reset link has been sent'' 200, db)"
  unfolding forgotPassword_def
  by (simp only: assms simp_thms if_False option.case)

lemma forgotPassword_known_email:
  assumes "\<not> falsy em" and "validateEmail (the em)" and "find (\<lambda>u. email u = the em) db = Some u"
  shows "forgotPassword validateEmail cfg now em db =
           (successResponse
              (JObj [(''resetToken'',
                      if NODE_ENV cfg = Some ''development''
                      then JTok (generateResetToken cfg now (idU u)) else JUndefined)])
              ''If email exists, reset link has been sent'' 200,
            map (\<lambda>r. if idU r = idU u
                     then r\<lparr>resetToken := Some (generateResetToken cfg now (idU u)),
                            resetTokenExpiry := Some (now + 60 * 60 * 1000),
                            updatedAt := now\<rparr>
                     else r) db)"
proof -
  from assms(3) have m: "u \<in> set db" by (rule find_Some_set)
  show ?thesis unfolding forgotPassword_def Let_def
    by (simp only: assms user_update_member [OF m] simp_thms if_False option.case)
qed

lemma forgotPassword_data_differs:
  assumes "\<not> falsy em1" and "validateEmail (the em1)" and "find (\<lambda>u. email u = the em1) db = None"
    and "\<not> falsy em2" and "validateEmail (the em2)" and "find (\<lambda>u. email u = the em2) db = Some u"
  shows "onWire (data (fst (forgotPassword validateEmail cfg now em1 db))) \<noteq>
         onWire (data (fst (forgotPassword validateEmail cfg now em2 db)))"
  unfolding forgotPassword_unknown_email [where validateEmail = validateEmail, OF assms(1-3)]
    forgotPassword_known_email [where validateEmail = validateEmail, OF assms(4-6)]
  by (simp add: successResponse_def onWire_def)

text \<open>
  C3. In production, with Alice's e-mail stored and \<^verbatim>\<open>nobody@x.io\<close> not: both requests
  are answered 200 with the same message, but the data of the first is \<^verbatim>\<open>null\<close> and the
  data of the second an object (after \<^verbatim>\<open>JSON.stringify\<close>, \<^verbatim>\<open>{}\<close>), so the two answers
  differ, against the comment in the handler that the answer is kept the same for
  security.
\<close>

theorem forgotPassword_reveals_known_email:
  "fst (forgotPassword hasAt cfg0 9000 (Some ''nobody@x.io'') db0) =
     successResponse JNull ''If email exists, reset link has been sent'' 200 \<and>
   fst (forgotPassword hasAt cfg0 9000 (Some ''a@b.com'') db0) =
     successResponse (JObj [(''resetToken'', JUndefined)])
       ''If email exists, reset link has been sent'' 200 \<and>
   onWire (data (fst (forgotPassword hasAt cfg0 9000 (Some ''nobody@x.io'') db0))) = JNull \<and>
   onWire (data (fst (forgotPassword hasAt cfg0 9000 (Some ''a@b.com'') db0))) = JObj []"
  by (simp add: forgotPassword_def db0_def alice_def bob_def falsy_def hasAt_def cfg0_def
      user_update_def successResponse_def onWire_def)

section \<open>Token purposes\<close>

text \<open>
  C2, as the code has it. A refresh token never verifies under \<^verbatim>\<open>JWT_SECRET\<close>, and an
  access or reset token never verifies under \<^verbatim>\<open>JWT_REFRESH_SECRET\<close>, when the deployment
  sets the two secrets apart. Access and reset tokens are both signed with
  \<^verbatim>\<open>JWT_SECRET\<close> and carry no purpose, so until it expires each verifies wherever the
  other does.
\<close>

theorem token_purpose_separation:
  assumes "JWT_SECRET cfg \<noteq> JWT_REFRESH_SECRET cfg"
  shows "verifyToken now (generateRefreshToken cfg t uid) (JWT_SECRET cfg) = Inl JsonWebTokenError \<and>
         verifyToken now (generateAccessToken cfg t uid) (JWT_REFRESH_SECRET cfg) = Inl JsonWebTokenError \<and>
         verifyToken now (generateResetToken cfg t uid) (JWT_REFRESH_SECRET cfg) = Inl JsonWebTokenError \<and>
         verifyToken now (generateResetToken cfg t uid) (JWT_SECRET cfg) =
           (if t div 1000 + 60 * 60 \<le> now div 1000 then Inl TokenExpiredError else Inr uid) \<and>
         verifyToken now (generateAccessToken cfg t uid) (JWT_SECRET cfg) =
           (if t div 1000 + (case JWT_EXPIRES_IN cfg of None \<Rightarrow> 15 * 60 | Some n \<Rightarrow> n) \<le> now div 1000
            then Inl TokenExpiredError else Inr uid)"
  using assms
  by (simp add: generateRefreshToken_def generateAccessToken_def generateResetToken_def jwt_sign_def)

theorem token_purpose_separation_witness:
  "verifyToken 5000 (generateRefreshToken cfg0 2000 ''u1'') (JWT_SECRET cfg0) = Inl JsonWebTokenError \<and>
   verifyToken 5000 (generateAccessToken cfg0 2000 ''u1'') (JWT_REFRESH_SECRET cfg0) = Inl JsonWebTokenError \<and>
   verifyToken 5000 (generateResetToken cfg0 2000 ''u1'') (JWT_REFRESH_SECRET cfg0) = Inl JsonWebTokenError \<and>
   verifyToken 5000 (generateResetToken cfg0 2000 ''u1'') (JWT_SECRET cfg0) = Inr ''u1'' \<and>
   verifyToken 5000 (generateAccessToken cfg0 2000 ''u1'') (JWT_SECRET cfg0) = Inr ''u1''"
proof -
  have h: "JWT_SECRET cfg0 \<noteq> JWT_REFRESH_SECRET cfg0" by (simp add: cfg0_def)
  from token_purpose_separation [OF h, of 5000 2000 "''u1''"]
  show ?thesis by (simp add: cfg0_def)
qed

text \<open>
  C2 as stated fails between the access and the reset purpose: the reset token issued
  to Alice verifies under the access secret and \<^verbatim>\<open>authenticate\<close> takes it for her access
  token; with \<^verbatim>\<open>JWT_EXPIRES_IN\<close> of one hour the two tokens of one second are the
  same string.
\<close>

theorem reset_token_accepted_as_access_token_counterexample:
  "verifyToken 5000 (generateResetToken cfg0 3000 ''u1'') (JWT_SECRET cfg0) = Inr ''u1'' \<and>
   authenticate cfg0 5000 (Some (generateResetToken cfg0 3000 ''u1'')) None db0 = Inr alice \<and>
   generateResetToken (cfg0\<lparr>JWT_EXPIRES_IN := Some 3600\<rparr>) 3000 ''u1'' =
     generateAccessToken (cfg0\<lparr>JWT_EXPIRES_IN := Some 3600\<rparr>) 3000 ''u1''"
  by (simp add: authenticate_def generateResetToken_def generateAccessToken_def jwt_sign_def cfg0_def
      db0_def alice_def)

section \<open>Resetting a password\<close>

lemma verifyToken_Inr_truthy: "verifyToken now t secret = Inr uid \<Longrightarrow> \<not> falsyTok (Some t)"
  by (cases t) simp_all

lemma verifyToken_subject:
  "verifyToken now t secret = Inr uid \<Longrightarrow> verifyToken now' t secret = Inr uid' \<Longrightarrow> uid' = uid"
  by (cases t) (simp_all split: if_splits)

lemma find_member_holds: "u \<in> set db \<Longrightarrow> P u \<Longrightarrow> \<exists>v. find P db = Some v"
  by (cases "find P db") (simp_all add: find_None_iff)

lemma user_update_found:
  "find P db = Some u \<Longrightarrow>
   user_update now (idU u) f db =
     Some (map (\<lambda>r. if idU r = idU u then (f r)\<lparr>updatedAt := now\<rparr> else r) db)"
  by (rule user_update_member) (rule find_Some_set)

lemma resetPassword_success:
  assumes "\<not> falsy newPassword" and "validatePassword (the newPassword)"
    and "verifyToken now t (JWT_SECRET cfg) = Inr uid"
    and "find (\<lambda>u. idU u = uid \<and> resetToken u = Some t \<and>
                 (case resetTokenExpiry u of None \<Rightarrow> False | Some e \<Rightarrow> now < e)) db = Some u"
  shows "resetPassword cfg now salt (Some t) newPassword db =
     (successResponse JNull ''Password reset successful'' 200,
      map (\<lambda>r. if idU r = uid
               then r\<lparr>password := hashPassword salt (the newPassword), resetToken := None,
                      resetTokenExpiry := None, refreshToken := None, updatedAt := now\<rparr>
               else r) db)"
proof -
  from find_Some_holds [OF assms(4)] have i: "idU u = uid" by (rule conjunct1)
  note t = verifyToken_Inr_truthy [OF assms(3)]
  show ?thesis unfolding resetPassword_def
    by (simp only: assms t user_update_found [OF assms(4), unfolded i] i option.sel simp_thms if_False
          sum.case option.case)
qed

lemma resetPassword_verify_fails:
  assumes "\<not> falsyTok (Some t)" and "\<not> falsy newPassword" and "validatePassword (the newPassword)"
    and "verifyToken now t (JWT_SECRET cfg) = Inl e"
  shows "resetPassword cfg now salt (Some t) newPassword db = (InvalidOrExpiredResetToken, db)"
  unfolding resetPassword_def InvalidOrExpiredResetToken_def
  by (simp only: assms option.sel simp_thms if_False sum.case)

lemma resetPassword_no_row:
  assumes "\<not> falsy newPassword" and "validatePassword (the newPassword)"
    and "verifyToken now t (JWT_SECRET cfg) = Inr uid"
    and "find (\<lambda>u. idU u = uid \<and> resetToken u = Some t \<and>
                 (case resetTokenExpiry u of None \<Rightarrow> False | Some e \<Rightarrow> now < e)) db = None"
  shows "resetPassword cfg now salt (Some t) newPassword db = (InvalidOrExpiredResetToken, db)"
  unfolding resetPassword_def InvalidOrExpiredResetToken_def
  by (simp only: assms verifyToken_Inr_truthy [OF assms(3)] option.sel simp_thms if_False
        sum.case option.case)

lemma updated_row:
  assumes "r \<in> set (map (\<lambda>x. if idU x = uid then g x else x) db)" and "idU r = uid"
  obtains x where "x \<in> set db" and "idU x = uid" and "r = g x"
proof -
  from assms(1) obtain x where x: "x \<in> set db" and r: "r = (if idU x = uid then g x else x)"
    unfolding set_map by (rule imageE)
  show thesis
  proof (cases "idU x = uid")
    case True
    with x r show thesis by (intro that [of x]) simp_all
  next
    case False
    with r assms(2) show thesis by simp
  qed
qed

lemma updated_row_present:
  assumes "x \<in> set db" and "idU x = uid"
  shows "g x \<in> set (map (\<lambda>x. if idU x = uid then g x else x) db)"
  unfolding set_map using assms by (intro image_eqI [of _ _ x]) simp_all

text \<open>
  C5. When the new password passes the length policy, the presented token verifies under
  \<^verbatim>\<open>JWT_SECRET\<close> with subject \<open>uid\<close>, and a row of that id stores this very token with
  an expiry strictly after \<open>now\<close>, then \<^verbatim>\<open>resetPassword\<close> answers 200 and every row of
  that id (there is one) holds the bcrypt hash of the new password, no reset token, no
  expiry and no refresh token; the other rows are as they were.
\<close>

theorem resetPassword_postcondition:
  assumes "\<not> falsy newPassword" and "validatePassword (the newPassword)"
    and "verifyToken now t (JWT_SECRET cfg) = Inr uid"
    and "u \<in> set db" and "idU u = uid" and "resetToken u = Some t"
    and "resetTokenExpiry u = Some e" and "now < e"
  shows "resetPassword cfg now salt (Some t) newPassword db =
           (successResponse JNull ''Password reset successful'' 200,
            map (\<lambda>r. if idU r = uid
                     then r\<lparr>password := hashPassword salt (the newPassword), resetToken := None,
                            resetTokenExpiry := None, refreshToken := None, updatedAt := now\<rparr>
                     else r) db) \<and>
         (\<forall>r \<in> set (snd (resetPassword cfg now salt (Some t) newPassword db)).
            idU r = uid \<longrightarrow>
              password r = hashPassword salt (the newPassword) \<and>
              comparePassword (the newPassword) (password r) \<and>
              resetToken r = None \<and> resetTokenExpiry r = None \<and> refreshToken r = None) \<and>
         (\<exists>r \<in> set (snd (resetPassword cfg now salt (Some t) newPassword db)). idU r = uid)"
proof -
  let ?P = "\<lambda>u. idU u = uid \<and> resetToken u = Some t \<and>
                 (case resetTokenExpiry u of None \<Rightarrow> False | Some e \<Rightarrow> now < e)"
  from assms(5-8) have "?P u" by simp
  with assms(4) obtain v where v: "find ?P db = Some v"
    using find_member_holds [of u db ?P] by blast
  note eq = resetPassword_success [where salt = salt, OF assms(1-3) v]
  have cleared: "\<forall>r \<in> set (snd (resetPassword cfg now salt (Some t) newPassword db)).
            idU r = uid \<longrightarrow>
              password r = hashPassword salt (the newPassword) \<and>
              comparePassword (the newPassword) (password r) \<and>
              resetToken r = None \<and> resetTokenExpiry r = None \<and> refreshToken r = None"
  proof (intro ballI impI)
    fix r
    assume a: "r \<in> set (snd (resetPassword cfg now salt (Some t) newPassword db))"
      and i: "idU r = uid"
    from a have "r \<in> set (map (\<lambda>r. if idU r = uid
               then r\<lparr>password := hashPassword salt (the newPassword), resetToken := None,
                      resetTokenExpiry := None, refreshToken := None, updatedAt := now\<rparr>
               else r) db)"
      unfolding eq snd_conv .
    from this i obtain x where "r = x\<lparr>password := hashPassword salt (the newPassword),
        resetToken := None, resetTokenExpiry := None, refreshToken := None, updatedAt := now\<rparr>"
      by (rule updated_row)
    then show "password r = hashPassword salt (the newPassword) \<and>
              comparePassword (the newPassword) (password r) \<and>
              resetToken r = None \<and> resetTokenExpiry r = None \<and> refreshToken r = None"
      by (simp add: hashPassword_def)
  qed
  have ex: "\<exists>r \<in> set (snd (resetPassword cfg now salt (Some t) newPassword db)). idU r = uid"
    unfolding eq snd_conv using updated_row_present [OF assms(4,5)]
    by (rule bexI [rotated]) (simp add: assms(5))
  from eq cleared ex show ?thesis by blast
qed

theorem resetPassword_postcondition_witness:
  "resetPassword cfg0 10000 ''s9'' (Some (generateResetToken cfg0 3000 ''u1'')) (Some ''newpass1'') db0 =
     (successResponse JNull ''Password reset successful'' 200,
      [alice\<lparr>password := hashPassword ''s9'' ''newpass1'', resetToken := None,
             resetTokenExpiry := None, refreshToken := None, updatedAt := 10000\<rparr>,
       bob])"
proof -
  have h1: "\<not> falsy (Some ''newpass1'')" by (simp add: falsy_def)
  have h2: "validatePassword (the (Some ''newpass1''))" by (simp add: validatePassword_def)
  have h3: "verifyToken 10000 (generateResetToken cfg0 3000 ''u1'') (JWT_SECRET cfg0) = Inr ''u1''"
    by (simp add: generateResetToken_def jwt_sign_def cfg0_def)
  have h4: "alice \<in> set db0" by (simp add: db0_def)
  have h5: "idU alice = ''u1''" by (simp add: alice_def)
  have h6: "resetToken alice = Some (generateResetToken cfg0 3000 ''u1'')" by (simp add: alice_def)
  have h7: "resetTokenExpiry alice = Some 3603000" by (simp add: alice_def)
  have h8: "(10000::nat) < 3603000" by simp
  have b: "idU bob \<noteq> ''u1''" by (simp add: bob_def)
  from resetPassword_postcondition [where salt = "''s9''", OF h1 h2 h3 h4 h5 h6 h7 h8, THEN conjunct1]
  show ?thesis by (simp add: db0_def h5 b)
qed

section \<open>Sessions: refresh, logout, password change\<close>

lemma refresh_verify_fails:
  assumes "(if falsyTok c then b else c) = Some t" and "\<not> falsyTok (Some t)"
    and "verifyToken now t (JWT_REFRESH_SECRET cfg) = Inl e"
  shows "refreshToken_handler cfg now c b db =
           (case e of TokenExpiredError \<Rightarrow> SessionExpired | JsonWebTokenError \<Rightarrow> SessionInvalid, db)"
  unfolding refreshToken_handler_def Let_def SessionExpired_def SessionInvalid_def
  by (cases e) (simp_all only: assms option.sel simp_thms if_False sum.case jwt_error.case)

lemma refresh_not_stored:
  assumes "(if falsyTok c then b else c) = Some t"
    and "verifyToken now t (JWT_REFRESH_SECRET cfg) = Inr uid"
    and "find (\<lambda>u. idU u = uid \<and> refreshToken u = Some t) db = None"
  shows "refreshToken_handler cfg now c b db = (SessionInvalid, db)"
  unfolding refreshToken_handler_def Let_def SessionInvalid_def
  by (simp only: assms verifyToken_Inr_truthy [OF assms(2)] option.sel simp_thms if_False
        sum.case option.case)

lemma refresh_inactive:
  assumes "(if falsyTok c then b else c) = Some t"
    and "verifyToken now t (JWT_REFRESH_SECRET cfg) = Inr uid"
    and "find (\<lambda>u. idU u = uid \<and> refreshToken u = Some t) db = Some u"
    and "\<not> isActive u"
  shows "refreshToken_handler cfg now c b db = (SessionInvalid, db)"
  unfolding refreshToken_handler_def Let_def SessionInvalid_def
  by (simp only: assms verifyToken_Inr_truthy [OF assms(2)] option.sel simp_thms if_False if_True
        sum.case option.case)

lemma refresh_success:
  assumes "(if falsyTok c then b else c) = Some t"
    and "verifyToken now t (JWT_REFRESH_SECRET cfg) = Inr uid"
    and "find (\<lambda>u. idU u = uid \<and> refreshToken u = Some t) db = Some u"
    and "isActive u"
  shows "refreshToken_handler cfg now c b db =
     ((successResponse
         (JObj [(''accessToken'', JTok (generateAccessToken cfg now uid)),
                (''refreshToken'', JTok (generateRefreshToken cfg now uid))])
         ''Token refreshed successfully'' 200)
        \<lparr>cookies := tokenCookies cfg (generateAccessToken cfg now uid)
                     (generateRefreshToken cfg now uid)\<rparr>,
      map (\<lambda>r. if idU r = uid
               then r\<lparr>refreshToken := Some (generateRefreshToken cfg now uid), updatedAt := now\<rparr>
               else r) db)"
proof -
  from find_Some_holds [OF assms(3)] have i: "idU u = uid" by (rule conjunct1)
  show ?thesis unfolding refreshToken_handler_def Let_def
    by (simp only: assms verifyToken_Inr_truthy [OF assms(2)] i
          user_update_found [OF assms(3), unfolded i] option.sel simp_thms if_False
          sum.case option.case)
qed

lemma logout_known_user:
  assumes "u \<in> set db" and "idU u \<noteq> []"
  shows "logout now (Some (idU u)) db =
     ((successResponse JNull ''Logout successful'' 200)
        \<lparr>cookies := [ClearCookie ''accessToken'', ClearCookie ''refreshToken'']\<rparr>,
      map (\<lambda>r. if idU r = idU u then r\<lparr>refreshToken := None, updatedAt := now\<rparr> else r) db)"
proof -
  from assms(2) have f: "\<not> falsy (Some (idU u))" by (simp add: falsy_def)
  show ?thesis unfolding logout_def
    by (simp only: f user_update_member [OF assms(1)] option.sel if_False option.case)
qed

lemma changeMyPassword_success:
  assumes "\<not> falsy currentPassword" and "\<not> falsy newPassword"
    and "validatePassword (the newPassword)"
    and "find (\<lambda>u. idU u = reqUserId) db = Some u"
    and "comparePassword (the currentPassword) (password u)"
  shows "changeMyPassword now salt reqUserId currentPassword newPassword db =
     ((successResponse JNull ''Password changed successfully. Please login again.'' 200)
        \<lparr>cookies := [ClearCookie ''accessToken'', ClearCookie ''refreshToken'']\<rparr>,
      map (\<lambda>r. if idU r = reqUserId
               then r\<lparr>password := hashPassword salt (the newPassword), refreshToken := None,
                      updatedAt := now\<rparr>
               else r) db)"
proof -
  from find_Some_holds [OF assms(4)] have i: "idU u = reqUserId" .
  show ?thesis unfolding changeMyPassword_def
    by (simp only: assms user_update_found [OF assms(4), unfolded i] simp_thms if_False
          option.case)
qed

lemma resetPassword_200D:
  assumes "status (fst (resetPassword cfg now salt token newPassword db)) = 200"
  obtains t uid u where "token = Some t" and "\<not> falsy newPassword"
    and "validatePassword (the newPassword)"
    and "verifyToken now t (JWT_SECRET cfg) = Inr uid"
    and "find (\<lambda>u. idU u = uid \<and> resetToken u = Some t \<and>
                 (case resetTokenExpiry u of None \<Rightarrow> False | Some e \<Rightarrow> now < e)) db = Some u"
proof -
  from assms have a: "\<not> falsyTok token" "\<not> falsy newPassword" "validatePassword (the newPassword)"
    unfolding resetPassword_def by (simp_all add: errorResponse_def split: if_splits)
  from a(1) obtain t where t: "token = Some t" by (cases token) simp_all
  from assms a t obtain uid where v: "verifyToken now t (JWT_SECRET cfg) = Inr uid"
    unfolding resetPassword_def
    by (cases "verifyToken now t (JWT_SECRET cfg)") (simp_all add: errorResponse_def)
  from assms a t v obtain u where "find (\<lambda>u. idU u = uid \<and> resetToken u = Some t \<and>
                 (case resetTokenExpiry u of None \<Rightarrow> False | Some e \<Rightarrow> now < e)) db = Some u"
    unfolding resetPassword_def
    by (cases "find (\<lambda>u. idU u = uid \<and> resetToken u = Some t \<and>
                 (case resetTokenExpiry u of None \<Rightarrow> False | Some e \<Rightarrow> now < e)) db")
       (simp_all add: errorResponse_def)
  with t a v show thesis by (intro that)
qed

lemma refresh_when_cleared:
  assumes "(if falsyTok c then b else c) = Some t"
    and "verifyToken now t (JWT_REFRESH_SECRET cfg) = Inr uid"
    and "\<forall>r \<in> set db. idU r = uid \<longrightarrow> refreshToken r = None"
  shows "refreshToken_handler cfg now c b db = (SessionInvalid, db)"
proof -
  from assms(3) have "find (\<lambda>u. idU u = uid \<and> refreshToken u = Some t) db = None"
    unfolding find_None_iff by fastforce
  with assms(1,2) show ?thesis by (rule refresh_not_stored)
qed

lemma cleared_after_update:
  assumes "\<And>x. refreshToken (g x) = None"
  shows "\<forall>r \<in> set (map (\<lambda>x. if idU x = uid then g x else x) db).
           idU r = uid \<longrightarrow> refreshToken r = None"
proof (intro ballI impI)
  fix r assume "r \<in> set (map (\<lambda>x. if idU x = uid then g x else x) db)" and "idU r = uid"
  then obtain x where "r = g x" by (rule updated_row)
  with assms show "refreshToken r = None" by simp
qed

section \<open>Registration\<close>

lemma find_append_fresh: "find P xs = None \<Longrightarrow> find P (xs @ ys) = find P ys"
  by (induction xs) (simp_all split: if_splits)

lemma map_update_fresh:
  "find (\<lambda>u. idU u = uid) db = None \<Longrightarrow>
   map (\<lambda>r. if idU r = uid then g r else r) db = db"
  unfolding find_None_iff by (intro map_idI) auto

lemma find_or_None:
  assumes "find P db = None" and "find Q db = None" and "find R db = None"
  shows "find (\<lambda>u. P u \<or> Q u \<or> R u) db = None"
  using assms unfolding find_None_iff by blast

lemma select_toObject:
  "select [''id'', ''email'', ''username'', ''name'', ''role'', ''createdAt''] (toObject u) =
     [(''id'', JStr (idU u)),
      (''email'', JStr (email u)),
      (''username'', jopt JStr (username u)),
      (''name'', jopt JStr (name u)),
      (''role'', JRole (role u)),
      (''createdAt'', JNum (createdAt u))]"
  by (simp add: select_def toObject_def)

lemma user_create_fresh:
  assumes "find (\<lambda>u. idU u = cuid) db = None" and "find (\<lambda>u. email u = em) db = None"
    and "un = None \<or> find (\<lambda>u. username u = un) db = None"
  shows "user_create now cuid em hashed nm un db =
           Some (newUser now cuid em hashed nm un, db @ [newUser now cuid em hashed nm un])"
proof -
  from assms(3) have "find (\<lambda>u. un \<noteq> None \<and> username u = un) db = None"
    unfolding find_None_iff by blast
  with assms(1,2) have "find (\<lambda>u. idU u = cuid \<or> email u = em \<or> (un \<noteq> None \<and> username u = un)) db = None"
    by (rule find_or_None)
  then show ?thesis unfolding user_create_def Let_def by (simp only: simp_thms if_False)
qed

lemma user_update_new_row:
  assumes "find (\<lambda>u. idU u = uid) db = None" and "idU u = uid"
  shows "user_update now uid g (db @ [u]) = Some (db @ [(g u)\<lparr>updatedAt := now\<rparr>])"
proof -
  have "u \<in> set (db @ [u])" by simp
  from user_update_member [OF this, of now g]
  show ?thesis unfolding assms(2) by (simp add: map_update_fresh [OF assms(1)] assms(2))
qed

lemma idU_newUser: "idU (newUser now cuid em hashed nm un) = cuid"
  by (simp add: newUser_def)

lemma user_update_newUser:
  assumes "find (\<lambda>u. idU u = cuid) db = None"
  shows "user_update now cuid g (db @ [newUser t cuid em h nm un]) =
           Some (db @ [(g (newUser t cuid em h nm un))\<lparr>updatedAt := now\<rparr>])"
  using assms idU_newUser by (rule user_update_new_row)

lemma register_success:
  assumes "\<not> falsy em" and "\<not> falsy pw" and "validateEmail (the em)"
    and "validatePassword (the pw)"
    and "find (\<lambda>u. email u = the em) db = None"
    and "un = None \<or> find (\<lambda>u. username u = un) db = None"
    and "find (\<lambda>u. idU u = cuid) db = None"
  shows "register validateEmail cfg now cuid salt em pw nm un db =
     ((successResponse
         (JObj [(''user'',
                 JObj (select [''id'', ''email'', ''username'', ''name'', ''role'', ''createdAt'']
                         (toObject (newUser now cuid (the em) (hashPassword salt (the pw)) nm un)))),
                (''accessToken'', JTok (generateAccessToken cfg now cuid)),
                (''refreshToken'', JTok (generateRefreshToken cfg now cuid))])
         ''Registration successful'' 201)
        \<lparr>cookies := tokenCookies cfg (generateAccessToken cfg now cuid)
                     (generateRefreshToken cfg now cuid)\<rparr>,
      db @ [(newUser now cuid (the em) (hashPassword salt (the pw)) nm un)
              \<lparr>refreshToken := Some (generateRefreshToken cfg now cuid), updatedAt := now\<rparr>])"
proof -
  from assms(6) have un: "\<not> (\<not> falsy un \<and> find (\<lambda>u. username u = un) db \<noteq> None)"
    by (auto simp: falsy_def)
  note cr = user_create_fresh [OF assms(7,5,6)]
  note up = user_update_newUser [OF assms(7)]
  show ?thesis unfolding register_def Let_def
    by (simp only: assms(1-5) un cr up idU_newUser simp_thms if_False option.case prod.case)
qed

lemma registered_row_found:
  assumes "find (\<lambda>u. email u = em) db = None"
  shows "find (\<lambda>u. email u = em)
           (db @ [(newUser now cuid em hashed nm un)\<lparr>refreshToken := rt, updatedAt := now\<rparr>]) =
         Some ((newUser now cuid em hashed nm un)\<lparr>refreshToken := rt, updatedAt := now\<rparr>)"
  unfolding find_append_fresh [OF assms] by (simp add: newUser_def)

text \<open>
  C8. A registration that the handler accepts (e-mail and password present, the e-mail
  well-formed and not yet stored, the password of at least 6 characters, the username
  absent or not yet taken, the generated id new) is answered 201 with a token pair, and
  a login with the same e-mail and password on the resulting table, at any later time
  \<open>now'\<close>, is answered 200 with a new token pair. The user object of either response
  has neither the key \<^verbatim>\<open>password\<close> nor the key \<^verbatim>\<open>refreshToken\<close>.
\<close>

theorem register_then_login:
  assumes "\<not> falsy em" and "\<not> falsy pw" and "validateEmail (the em)"
    and "validatePassword (the pw)"
    and "find (\<lambda>u. email u = the em) db = None"
    and "un = None \<or> find (\<lambda>u. username u = un) db = None"
    and "find (\<lambda>u. idU u = cuid) db = None"
  shows "fst (register validateEmail cfg now cuid salt em pw nm un db) =
           (successResponse
              (JObj [(''user'',
                      JObj [(''id'', JStr cuid),
                            (''email'', JStr (the em)),
                            (''username'', jopt JStr un),
                            (''name'', jopt JStr nm),
                            (''role'', JRole USER),
                            (''createdAt'', JNum now)]),
                     (''accessToken'', JTok (generateAccessToken cfg now cuid)),
                     (''refreshToken'', JTok (generateRefreshToken cfg now cuid))])
              ''Registration successful'' 201)
             \<lparr>cookies := tokenCookies cfg (generateAccessToken cfg now cuid)
                          (generateRefreshToken cfg now cuid)\<rparr> \<and>
         fst (login cfg now' em pw (snd (register validateEmail cfg now cuid salt em pw nm un db))) =
           (successResponse
              (JObj [(''user'',
                      JObj [(''id'', JStr cuid),
                            (''email'', JStr (the em)),
                            (''username'', jopt JStr un),
                            (''name'', jopt JStr nm),
                            (''avatar'', JNull),
                            (''role'', JRole USER),
                            (''isActive'', JBool True),
                            (''resetToken'', JNull),
                            (''resetTokenExpiry'', JNull),
                            (''createdAt'', JNum now),
                            (''updatedAt'', JNum now)]),
                     (''accessToken'', JTok (generateAccessToken cfg now' cuid)),
                     (''refreshToken'', JTok (generateRefreshToken cfg now' cuid))])
              ''Login successful'' 200)
             \<lparr>cookies := tokenCookies cfg (generateAccessToken cfg now' cuid)
                          (generateRefreshToken cfg now' cuid)\<rparr> \<and>
         \<not> hasKey ''password'' (userOf (fst (register validateEmail cfg now cuid salt em pw nm un db))) \<and>
         \<not> hasKey ''refreshToken'' (userOf (fst (register validateEmail cfg now cuid salt em pw nm un db))) \<and>
         \<not> hasKey ''password''
             (userOf (fst (login cfg now' em pw
                (snd (register validateEmail cfg now cuid salt em pw nm un db))))) \<and>
         \<not> hasKey ''refreshToken''
             (userOf (fst (login cfg now' em pw
                (snd (register validateEmail cfg now cuid salt em pw nm un db)))))"
proof -
  let ?row = "(newUser now cuid (the em) (hashPassword salt (the pw)) nm un)
                \<lparr>refreshToken := Some (generateRefreshToken cfg now cuid), updatedAt := now\<rparr>"
  note reg = register_success [where validateEmail = validateEmail and cfg = cfg and now = now
      and salt = salt and nm = nm, OF assms]
  have f: "find (\<lambda>u. email u = the em) (db @ [?row]) = Some ?row"
    by (rule registered_row_found [OF assms(5)])
  have act: "isActive ?row" by (simp add: newUser_def)
  have pw: "comparePassword (the pw) (password ?row)" by (simp add: newUser_def hashPassword_def)
  have i: "idU ?row = cuid" by (simp add: newUser_def)
  note log = login_success [where cfg = cfg and now = now', OF assms(1,2) f act pw, unfolded i]
  have r1: "fst (register validateEmail cfg now cuid salt em pw nm un db) =
           (successResponse
              (JObj [(''user'',
                      JObj [(''id'', JStr cuid),
                            (''email'', JStr (the em)),
                            (''username'', jopt JStr un),
                            (''name'', jopt JStr nm),
                            (''role'', JRole USER),
                            (''createdAt'', JNum now)]),
                     (''accessToken'', JTok (generateAccessToken cfg now cuid)),
                     (''refreshToken'', JTok (generateRefreshToken cfg now cuid))])
              ''Registration successful'' 201)
             \<lparr>cookies := tokenCookies cfg (generateAccessToken cfg now cuid)
                          (generateRefreshToken cfg now cuid)\<rparr>"
    unfolding reg fst_conv select_toObject by (simp add: newUser_def)
  have r2: "fst (login cfg now' em pw (snd (register validateEmail cfg now cuid salt em pw nm un db))) =
           (successResponse
              (JObj [(''user'',
                      JObj [(''id'', JStr cuid),
                            (''email'', JStr (the em)),
                            (''username'', jopt JStr un),
                            (''name'', jopt JStr nm),
                            (''avatar'', JNull),
                            (''role'', JRole USER),
                            (''isActive'', JBool True),
                            (''resetToken'', JNull),
                            (''resetTokenExpiry'', JNull),
                            (''createdAt'', JNum now),
                            (''updatedAt'', JNum now)]),
                     (''accessToken'', JTok (generateAccessToken cfg now' cuid)),
                     (''refreshToken'', JTok (generateRefreshToken cfg now' cuid))])
              ''Login successful'' 200)
             \<lparr>cookies := tokenCookies cfg (generateAccessToken cfg now' cuid)
                          (generateRefreshToken cfg now' cuid)\<rparr>"
    unfolding reg snd_conv log fst_conv omit_toObject by (simp add: newUser_def jopt_def)
  show ?thesis unfolding r1 r2
    by (simp add: userOf_def hasKey_def successResponse_def)
qed

theorem register_then_login_witness:
  "status (fst (register hasAt cfg0 20000 ''u3'' ''s3'' (Some ''c@d.org'') (Some ''hunter2x'')
      (Some ''C'') (Some ''carol'') db0)) = 201 \<and>
   status (fst (login cfg0 30000 (Some ''c@d.org'') (Some ''hunter2x'')
      (snd (register hasAt cfg0 20000 ''u3'' ''s3'' (Some ''c@d.org'') (Some ''hunter2x'')
         (Some ''C'') (Some ''carol'') db0)))) = 200 \<and>
   data (fst (login cfg0 30000 (Some ''c@d.org'') (Some ''hunter2x'')
      (snd (register hasAt cfg0 20000 ''u3'' ''s3'' (Some ''c@d.org'') (Some ''hunter2x'')
         (Some ''C'') (Some ''carol'') db0)))) =
     JObj [(''user'',
            JObj [(''id'', JStr ''u3''),
                  (''email'', JStr ''c@d.org''),
                  (''username'', JStr ''carol''),
                  (''name'', JStr ''C''),
                  (''avatar'', JNull),
                  (''role'', JRole USER),
                  (''isActive'', JBool True),
                  (''resetToken'', JNull),
                  (''resetTokenExpiry'', JNull),
                  (''createdAt'', JNum 20000),
                  (''updatedAt'', JNum 20000)]),
           (''accessToken'', JTok (Jwt ''u3'' 30 930 ''access-secret'')),
           (''refreshToken'', JTok (Jwt ''u3'' 30 604830 ''refresh-secret''))]"
proof -
  have h1: "\<not> falsy (Some ''c@d.org'')" and h2: "\<not> falsy (Some ''hunter2x'')"
    by (simp_all add: falsy_def)
  have h3: "hasAt (the (Some ''c@d.org''))" by (simp add: hasAt_def)
  have h4: "validatePassword (the (Some ''hunter2x''))" by (simp add: validatePassword_def)
  have h5: "find (\<lambda>u. email u = the (Some ''c@d.org'')) db0 = None"
    by (simp add: db0_def alice_def bob_def)
  have h6: "Some ''carol'' = None \<or> find (\<lambda>u. username u = Some ''carol'') db0 = None"
    by (simp add: db0_def alice_def bob_def)
  have h7: "find (\<lambda>u. idU u = ''u3'') db0 = None"
    by (simp add: db0_def alice_def bob_def)
  from register_then_login [where validateEmail = hasAt and cfg = cfg0 and now = 20000
      and now' = 30000 and salt = "''s3''" and nm = "Some ''C''", OF h1 h2 h3 h4 h5 h6 h7]
  show ?thesis
    by (simp add: successResponse_def jopt_def generateAccessToken_def generateRefreshToken_def
        jwt_sign_def cfg0_def)
qed

section \<open>Rotation of refresh tokens\<close>

lemma notStored_iff: "notStored uid t db \<longleftrightarrow> (\<forall>u \<in> set db. idU u = uid \<longrightarrow> refreshToken u \<noteq> Some t)"
  unfolding notStored_def find_None_iff by blast

lemma user_update_keeps_out:
  assumes "user_update now x g db = Some db'" and "notStored uid t db"
    and "\<And>u. idU (g u) = idU u"
    and "\<And>u. refreshToken (g u) = refreshToken u \<or> refreshToken (g u) \<noteq> Some t"
  shows "notStored uid t db'"
proof -
  from assms(1) have eq: "db' = map (\<lambda>u. if idU u = x then (g u)\<lparr>updatedAt := now\<rparr> else u) db"
    unfolding user_update_def by (simp split: option.splits)
  show ?thesis unfolding notStored_iff
  proof (intro ballI impI)
    fix r assume "r \<in> set db'" and i: "idU r = uid"
    then obtain u where u: "u \<in> set db"
      and r: "r = (if idU u = x then (g u)\<lparr>updatedAt := now\<rparr> else u)"
      unfolding eq set_map by (elim imageE)
    show "refreshToken r \<noteq> Some t"
    proof (cases "idU u = x")
      case True
      with r have r': "r = (g u)\<lparr>updatedAt := now\<rparr>" by simp
      with i assms(3) [of u] have "idU u = uid" by simp
      with u assms(2) have "refreshToken u \<noteq> Some t" unfolding notStored_iff by blast
      with assms(4) [of u] r' show ?thesis by auto
    next
      case False
      with r i u assms(2) show ?thesis unfolding notStored_iff by simp
    qed
  qed
qed

lemma fresh_refresh_token_differs:
  "iat < now div 1000 \<Longrightarrow> generateRefreshToken cfg now x \<noteq> Jwt uid iat ex key"
  by (simp add: generateRefreshToken_def jwt_sign_def)

lemma login_keeps_out:
  assumes "notStored uid (Jwt uid iat ex key) db" and "iat < now div 1000"
  shows "notStored uid (Jwt uid iat ex key) (snd (login cfg now em pw db))"
  using assms unfolding login_unfold Let_def
  by (auto split: option.splits elim!: user_update_keeps_out simp: fresh_refresh_token_differs)

lemma logout_keeps_out:
  assumes "notStored uid t db"
  shows "notStored uid t (snd (logout now userId db))"
  using assms unfolding logout_def
  by (auto split: option.splits elim!: user_update_keeps_out)

lemma refresh_keeps_out:
  assumes "notStored uid (Jwt uid iat ex key) db" and "iat < now div 1000"
  shows "notStored uid (Jwt uid iat ex key) (snd (refreshToken_handler cfg now c b db))"
  using assms unfolding refreshToken_handler_def Let_def
  by (auto split: option.splits sum.splits jwt_error.splits elim!: user_update_keeps_out
      simp: fresh_refresh_token_differs)

lemma forgotPassword_keeps_out:
  assumes "notStored uid t db"
  shows "notStored uid t (snd (forgotPassword ve cfg now em db))"
  using assms unfolding forgotPassword_def Let_def
  by (auto split: option.splits elim!: user_update_keeps_out)

lemma resetPassword_keeps_out:
  assumes "notStored uid t db"
  shows "notStored uid t (snd (resetPassword cfg now salt token newPassword db))"
  using assms unfolding resetPassword_def
  by (auto split: option.splits sum.splits elim!: user_update_keeps_out)

lemma changeMyPassword_keeps_out:
  assumes "notStored uid t db"
  shows "notStored uid t (snd (changeMyPassword now salt reqUserId currentPassword newPassword db))"
  using assms unfolding changeMyPassword_def
  by (auto split: option.splits elim!: user_update_keeps_out)

lemma user_create_keeps_out:
  assumes "user_create now cuid em h nm un db = Some (u, db1)" and "notStored uid t db"
  shows "notStored uid t db1"
proof -
  from assms(1) have "db1 = db @ [newUser now cuid em h nm un]"
    unfolding user_create_def Let_def by (auto split: if_splits)
  with assms(2) show ?thesis unfolding notStored_iff by (auto simp: newUser_def)
qed

lemma register_keeps_out:
  assumes "notStored uid (Jwt uid iat ex key) db" and "iat < now div 1000"
  shows "notStored uid (Jwt uid iat ex key)
           (snd (register ve cfg now cuid salt em pw nm un db))"
  using assms unfolding register_def Let_def
  by (auto split: option.splits elim!: user_update_keeps_out dest: user_create_keeps_out
      simp: fresh_refresh_token_differs)

lemma handle_keeps_out:
  assumes "notStored uid (Jwt uid iat ex key) db" and "iat < clock k div 1000"
  shows "notStored uid (Jwt uid iat ex key) (snd (handle ve cfg k db))"
  using assms
  by (cases k)
     (simp_all add: register_keeps_out login_keeps_out logout_keeps_out refresh_keeps_out
        forgotPassword_keeps_out resetPassword_keeps_out changeMyPassword_keeps_out)

lemma run_keeps_out:
  assumes "notStored uid (Jwt uid iat ex key) db" and "\<forall>k \<in> set ks. iat < clock k div 1000"
  shows "notStored uid (Jwt uid iat ex key) (run ve cfg ks db)"
  using assms
proof (induction ks arbitrary: db)
  case Nil
  then show ?case by simp
next
  case (Cons k ks)
  from Cons.prems have "notStored uid (Jwt uid iat ex key) (snd (handle ve cfg k db))"
    by (intro handle_keeps_out) simp_all
  with Cons.prems show ?case by (simp add: Cons.IH)
qed

lemma refresh_200D:
  assumes "status (fst (refreshToken_handler cfg now c b db)) = 200"
    and "(if falsyTok c then b else c) = Some t"
  obtains uid u where "verifyToken now t (JWT_REFRESH_SECRET cfg) = Inr uid"
    and "find (\<lambda>u. idU u = uid \<and> refreshToken u = Some t) db = Some u" and "isActive u"
proof -
  from assms have nf: "\<not> falsyTok (Some t)"
    unfolding refreshToken_handler_def Let_def by (simp add: errorResponse_def split: if_splits)
  from assms nf obtain uid where v: "verifyToken now t (JWT_REFRESH_SECRET cfg) = Inr uid"
    unfolding refreshToken_handler_def Let_def
    by (cases "verifyToken now t (JWT_REFRESH_SECRET cfg)")
       (simp_all add: errorResponse_def split: jwt_error.splits)
  from assms nf v obtain u
    where f: "find (\<lambda>u. idU u = uid \<and> refreshToken u = Some t) db = Some u"
    unfolding refreshToken_handler_def Let_def
    by (cases "find (\<lambda>u. idU u = uid \<and> refreshToken u = Some t) db")
       (simp_all add: errorResponse_def)
  from assms nf v f have "isActive u"
    unfolding refreshToken_handler_def Let_def
    by (cases "isActive u") (simp_all add: errorResponse_def)
  with v f show thesis by (rule that)
qed

lemma refreshToken_after_update:
  assumes "\<And>x. refreshToken (g x) = v"
  shows "\<forall>r \<in> set (map (\<lambda>x. if idU x = uid then g x else x) db).
           idU r = uid \<longrightarrow> refreshToken r = v"
proof (intro ballI impI)
  fix r assume "r \<in> set (map (\<lambda>x. if idU x = uid then g x else x) db)" and "idU r = uid"
  then obtain x where "r = g x" by (rule updated_row)
  with assms show "refreshToken r = v" by simp
qed

text \<open>
  C1, as the code has it. Take a refresh that answers 200 for a presented token issued
  in an earlier clock second than the refresh itself (\<open>iat < now div 1000\<close>). The answer
  carries a new token pair, every row of the user stores the new refresh token, and
  the new token is not the presented one. After any further requests \<open>ks\<close> whose clocks
  are not before that refresh, a refresh that presents the old token again is refused
  and changes nothing: 401 \<^verbatim>\<open>Invalid refresh token\<close> while the old token is unexpired,
  401 \<^verbatim>\<open>Refresh token expired\<close> once it is past its \<^verbatim>\<open>exp\<close>.
\<close>

theorem refresh_rotation:
  assumes "(if falsyTok c then b else c) = Some (Jwt uid iat ex key)"
    and "status (fst (refreshToken_handler cfg now c b db)) = 200"
    and "iat < now div 1000"
    and "\<forall>k \<in> set ks. now \<le> clock k"
    and "now \<le> now'"
    and "(if falsyTok c' then b' else c') = Some (Jwt uid iat ex key)"
  shows "data (fst (refreshToken_handler cfg now c b db)) =
           JObj [(''accessToken'', JTok (generateAccessToken cfg now uid)),
                 (''refreshToken'', JTok (generateRefreshToken cfg now uid))] \<and>
         (\<forall>r \<in> set (snd (refreshToken_handler cfg now c b db)).
            idU r = uid \<longrightarrow> refreshToken r = Some (generateRefreshToken cfg now uid)) \<and>
         (\<exists>r \<in> set (snd (refreshToken_handler cfg now c b db)). idU r = uid) \<and>
         generateRefreshToken cfg now uid \<noteq> Jwt uid iat ex key \<and>
         refreshToken_handler cfg now' c' b'
             (run ve cfg ks (snd (refreshToken_handler cfg now c b db))) =
           (if ex \<le> now' div 1000 then SessionExpired else SessionInvalid,
            run ve cfg ks (snd (refreshToken_handler cfg now c b db)))"
proof -
  let ?t = "Jwt uid iat ex key"
  let ?db1 = "snd (refreshToken_handler cfg now c b db)"
  let ?db2 = "run ve cfg ks ?db1"
  from assms(2,1) obtain uid' u
    where v': "verifyToken now ?t (JWT_REFRESH_SECRET cfg) = Inr uid'"
      and f': "find (\<lambda>u. idU u = uid' \<and> refreshToken u = Some ?t) db = Some u"
      and act: "isActive u"
    by (rule refresh_200D)
  from v' have key: "key = JWT_REFRESH_SECRET cfg" and same: "uid' = uid"
    by (simp_all split: if_splits)
  note v = v' [unfolded same] and f = f' [unfolded same]
  note eq = refresh_success [OF assms(1) v f act]
  have d: "data (fst (refreshToken_handler cfg now c b db)) =
           JObj [(''accessToken'', JTok (generateAccessToken cfg now uid)),
                 (''refreshToken'', JTok (generateRefreshToken cfg now uid))]"
    unfolding eq by (simp add: successResponse_def)
  have stored: "\<forall>r \<in> set ?db1. idU r = uid \<longrightarrow>
      refreshToken r = Some (generateRefreshToken cfg now uid)"
    unfolding eq snd_conv by (rule refreshToken_after_update) simp
  from find_Some_set [OF f] find_Some_holds [OF f]
  have "u \<in> set db" and "idU u = uid" by simp_all
  then have "u\<lparr>refreshToken := Some (generateRefreshToken cfg now uid), updatedAt := now\<rparr>
      \<in> set ?db1"
    unfolding eq snd_conv by (rule updated_row_present)
  with \<open>idU u = uid\<close> have ex1: "\<exists>r \<in> set ?db1. idU r = uid"
    by (intro bexI [of _ "u\<lparr>refreshToken := Some (generateRefreshToken cfg now uid),
          updatedAt := now\<rparr>"]) simp_all
  have ne: "generateRefreshToken cfg now uid \<noteq> ?t"
    using assms(3) by (rule fresh_refresh_token_differs)
  from stored ne have out1: "notStored uid ?t ?db1"
    unfolding notStored_iff by auto
  have "\<forall>k \<in> set ks. iat < clock k div 1000"
  proof
    fix k assume "k \<in> set ks"
    with assms(4) have "now div 1000 \<le> clock k div 1000" by (simp add: div_le_mono)
    with assms(3) show "iat < clock k div 1000" by simp
  qed
  with out1 have out2: "notStored uid ?t ?db2" by (rule run_keeps_out)
  have again: "refreshToken_handler cfg now' c' b' ?db2 =
      (if ex \<le> now' div 1000 then SessionExpired else SessionInvalid, ?db2)"
  proof (cases "ex \<le> now' div 1000")
    case True
    then have "verifyToken now' ?t (JWT_REFRESH_SECRET cfg) = Inl TokenExpiredError"
      by (simp add: key)
    from refresh_verify_fails [OF assms(6) _ this, of ?db2] True show ?thesis by simp
  next
    case False
    then have "verifyToken now' ?t (JWT_REFRESH_SECRET cfg) = Inr uid" by (simp add: key)
    from refresh_not_stored [OF assms(6) this out2 [unfolded notStored_def]] False
    show ?thesis by simp
  qed
  from d stored ex1 ne again show ?thesis by blast
qed

theorem refresh_rotation_witness:
  "data (fst (refreshToken_handler cfg0 5000 None (Some (Jwt ''u1'' 2 604802 ''refresh-secret'')) db0)) =
     JObj [(''accessToken'', JTok (Jwt ''u1'' 5 905 ''access-secret'')),
           (''refreshToken'', JTok (Jwt ''u1'' 5 604805 ''refresh-secret''))] \<and>
   map refreshToken
     (snd (refreshToken_handler cfg0 5000 None (Some (Jwt ''u1'' 2 604802 ''refresh-secret'')) db0)) =
     [Some (Jwt ''u1'' 5 604805 ''refresh-secret''), None] \<and>
   map refreshToken
     (run hasAt cfg0
        [Login 6000 (Some ''a@b.com'') (Some ''secret1''),
         Refresh 7000 None (Some (Jwt ''u1'' 6 604806 ''refresh-secret'')),
         ForgotPassword 8000 (Some ''a@b.com'')]
        (snd (refreshToken_handler cfg0 5000 None
           (Some (Jwt ''u1'' 2 604802 ''refresh-secret'')) db0))) =
     [Some (Jwt ''u1'' 7 604807 ''refresh-secret''), None] \<and>
   refreshToken_handler cfg0 9000 (Some (Jwt ''u1'' 2 604802 ''refresh-secret'')) None
     (run hasAt cfg0
        [Login 6000 (Some ''a@b.com'') (Some ''secret1''),
         Refresh 7000 None (Some (Jwt ''u1'' 6 604806 ''refresh-secret'')),
         ForgotPassword 8000 (Some ''a@b.com'')]
        (snd (refreshToken_handler cfg0 5000 None
           (Some (Jwt ''u1'' 2 604802 ''refresh-secret'')) db0))) =
     (SessionInvalid,
      run hasAt cfg0
        [Login 6000 (Some ''a@b.com'') (Some ''secret1''),
         Refresh 7000 None (Some (Jwt ''u1'' 6 604806 ''refresh-secret'')),
         ForgotPassword 8000 (Some ''a@b.com'')]
        (snd (refreshToken_handler cfg0 5000 None
           (Some (Jwt ''u1'' 2 604802 ''refresh-secret'')) db0)))"
proof -
  let ?r = "Jwt ''u1'' 2 604802 ''refresh-secret''"
  let ?ks = "[Login 6000 (Some ''a@b.com'') (Some ''secret1''),
         Refresh 7000 None (Some (Jwt ''u1'' 6 604806 ''refresh-secret'')),
         ForgotPassword 8000 (Some ''a@b.com'')]"
  have first: "refreshToken_handler cfg0 5000 None (Some ?r) db0 =
      ((successResponse
         (JObj [(''accessToken'', JTok (Jwt ''u1'' 5 905 ''access-secret'')),
                (''refreshToken'', JTok (Jwt ''u1'' 5 604805 ''refresh-secret''))])
         ''Token refreshed successfully'' 200)
        \<lparr>cookies := tokenCookies cfg0 (Jwt ''u1'' 5 905 ''access-secret'')
                     (Jwt ''u1'' 5 604805 ''refresh-secret'')\<rparr>,
       [alice\<lparr>refreshToken := Some (Jwt ''u1'' 5 604805 ''refresh-secret''), updatedAt := 5000\<rparr>,
        bob])"
    by (simp add: refreshToken_handler_def Let_def db0_def alice_def bob_def cfg0_def
        user_update_def generateRefreshToken_def generateAccessToken_def jwt_sign_def)
  have h1: "(if falsyTok None then Some ?r else None) = Some ?r" by simp
  have h2: "status (fst (refreshToken_handler cfg0 5000 None (Some ?r) db0)) = 200"
    unfolding first by (simp add: successResponse_def)
  have h3: "(2::nat) < 5000 div 1000" by simp
  have h4: "\<forall>k \<in> set ?ks. 5000 \<le> clock k" by simp
  have h5: "(5000::nat) \<le> 9000" by simp
  have h6: "(if falsyTok (Some ?r) then None else Some ?r) = Some ?r" by simp
  have tr: "map refreshToken (run hasAt cfg0 ?ks
      [alice\<lparr>refreshToken := Some (Jwt ''u1'' 5 604805 ''refresh-secret''), updatedAt := 5000\<rparr>,
       bob]) = [Some (Jwt ''u1'' 7 604807 ''refresh-secret''), None]"
    by (simp add: login_unfold refreshToken_handler_def forgotPassword_def Let_def alice_def bob_def
        cfg0_def user_update_def generateRefreshToken_def generateAccessToken_def
        generateResetToken_def jwt_sign_def falsy_def hashPassword_def hasAt_def)
  note th = refresh_rotation [where ve = hasAt and ks = ?ks, OF h1 h2 h3 h4 h5 h6]
  have c1: "data (fst (refreshToken_handler cfg0 5000 None (Some ?r) db0)) =
     JObj [(''accessToken'', JTok (Jwt ''u1'' 5 905 ''access-secret'')),
           (''refreshToken'', JTok (Jwt ''u1'' 5 604805 ''refresh-secret''))]"
    unfolding first by (simp add: successResponse_def)
  have c2: "map refreshToken (snd (refreshToken_handler cfg0 5000 None (Some ?r) db0)) =
     [Some (Jwt ''u1'' 5 604805 ''refresh-secret''), None]"
    unfolding first by (simp add: bob_def)
  have c3: "map refreshToken
     (run hasAt cfg0 ?ks (snd (refreshToken_handler cfg0 5000 None (Some ?r) db0))) =
     [Some (Jwt ''u1'' 7 604807 ''refresh-secret''), None]"
    unfolding first snd_conv by (rule tr)
  have c4: "refreshToken_handler cfg0 9000 (Some ?r) None
     (run hasAt cfg0 ?ks (snd (refreshToken_handler cfg0 5000 None (Some ?r) db0))) =
     (SessionInvalid,
      run hasAt cfg0 ?ks (snd (refreshToken_handler cfg0 5000 None (Some ?r) db0)))"
    using th [THEN conjunct2, THEN conjunct2, THEN conjunct2, THEN conjunct2]
    by simp
  from c1 c2 c3 c4 show ?thesis by (intro conjI)
qed

text \<open>
  C1 as stated fails when the refresh happens in the clock second in which the presented
  token was issued: \<^verbatim>\<open>jwt.sign\<close> then builds the very same string (same payload, same
  \<^verbatim>\<open>iat\<close> and \<^verbatim>\<open>exp\<close>, same key), so the token that was presented is the one stored
  again and a later refresh with it is answered 200.
\<close>

theorem refresh_rotation_same_second_counterexample:
  "refreshToken alice = Some (Jwt ''u1'' 2 604802 ''refresh-secret'') \<and>
   fst (refreshToken_handler cfg0 2500 None (Some (Jwt ''u1'' 2 604802 ''refresh-secret'')) db0) =
     (successResponse
        (JObj [(''accessToken'', JTok (Jwt ''u1'' 2 902 ''access-secret'')),
               (''refreshToken'', JTok (Jwt ''u1'' 2 604802 ''refresh-secret''))])
        ''Token refreshed successfully'' 200)
       \<lparr>cookies := tokenCookies cfg0 (Jwt ''u1'' 2 902 ''access-secret'')
                    (Jwt ''u1'' 2 604802 ''refresh-secret'')\<rparr> \<and>
   status (fst (refreshToken_handler cfg0 9000 None (Some (Jwt ''u1'' 2 604802 ''refresh-secret''))
     (snd (refreshToken_handler cfg0 2500 None (Some (Jwt ''u1'' 2 604802 ''refresh-secret'')) db0))))
     = 200 \<and>
   fst (refreshToken_handler cfg0 9000 None (Some (Jwt ''u1'' 2 604802 ''refresh-secret''))
     (snd (refreshToken_handler cfg0 2500 None (Some (Jwt ''u1'' 2 604802 ''refresh-secret'')) db0)))
     \<noteq> SessionInvalid"
  by (simp add: refreshToken_handler_def Let_def db0_def alice_def bob_def cfg0_def user_update_def
      generateRefreshToken_def generateAccessToken_def jwt_sign_def successResponse_def
      SessionInvalid_def errorResponse_def)

section \<open>The life of a refresh token\<close>

text \<open>
  The column \<^verbatim>\<open>id\<close> is the primary key: a table has one row for an id. No handler
  changes an id, and \<^verbatim>\<open>create\<close> refuses an id that is taken, so the handlers keep the
  ids of a table distinct.
\<close>

lemma user_update_ids:
  assumes "user_update now x g db = Some db'" and "\<And>u. idU (g u) = idU u"
  shows "map idU db' = map idU db"
proof -
  from assms(1) have eq: "db' = map (\<lambda>u. if idU u = x then (g u)\<lparr>updatedAt := now\<rparr> else u) db"
    unfolding user_update_def by (simp split: option.splits)
  show ?thesis unfolding eq map_map by (rule map_cong) (simp_all add: assms(2))
qed

lemma login_ids: "map idU (snd (login cfg now em pw db)) = map idU db"
  unfolding login_unfold Let_def
  by (auto split: option.splits dest!: user_update_ids)

lemma logout_ids: "map idU (snd (logout now userId db)) = map idU db"
  unfolding logout_def
  by (auto split: option.splits dest!: user_update_ids)

lemma refresh_ids: "map idU (snd (refreshToken_handler cfg now c b db)) = map idU db"
  unfolding refreshToken_handler_def Let_def
  by (auto split: option.splits sum.splits jwt_error.splits dest!: user_update_ids)

lemma forgotPassword_ids: "map idU (snd (forgotPassword ve cfg now em db)) = map idU db"
  unfolding forgotPassword_def Let_def
  by (auto split: option.splits dest!: user_update_ids)

lemma resetPassword_ids:
  "map idU (snd (resetPassword cfg now salt token newPassword db)) = map idU db"
  unfolding resetPassword_def
  by (auto split: option.splits sum.splits dest!: user_update_ids)

lemma changeMyPassword_ids:
  "map idU (snd (changeMyPassword now salt reqUserId currentPassword newPassword db)) = map idU db"
  unfolding changeMyPassword_def
  by (auto split: option.splits dest!: user_update_ids)

lemma user_create_ids:
  assumes "user_create now cuid em h nm un db = Some (u, db1)"
  shows "map idU db1 = map idU db @ [cuid] \<and> cuid \<notin> set (map idU db)"
proof -
  from assms have n: "find (\<lambda>u. idU u = cuid \<or> email u = em \<or> (un \<noteq> None \<and> username u = un)) db = None"
    and eq: "db1 = db @ [newUser now cuid em h nm un]"
    unfolding user_create_def Let_def by (auto split: if_splits)
  from n have "cuid \<notin> set (map idU db)" unfolding find_None_iff by auto
  with eq show ?thesis by (simp add: newUser_def)
qed

lemma register_ids_distinct:
  assumes "distinct (map idU db)"
  shows "distinct (map idU (snd (register ve cfg now cuid salt em pw nm un db)))"
  using assms unfolding register_def Let_def
  by (auto split: option.splits dest!: user_update_ids user_create_ids)

lemma handle_keeps_ids_distinct:
  assumes "distinct (map idU db)"
  shows "distinct (map idU (snd (handle ve cfg k db)))"
  using assms
  by (cases k)
     (simp_all add: register_ids_distinct login_ids logout_ids refresh_ids forgotPassword_ids
        resetPassword_ids changeMyPassword_ids)

lemma run_keeps_ids_distinct:
  assumes "distinct (map idU db)"
  shows "distinct (map idU (run ve cfg ks db))"
  using assms
proof (induction ks arbitrary: db)
  case Nil
  then show ?case by simp
next
  case (Cons k ks)
  from Cons.prems have "distinct (map idU (snd (handle ve cfg k db)))"
    by (rule handle_keeps_ids_distinct)
  then show ?case by (simp add: Cons.IH)
qed

lemma accepted_refresh_token_is_stored:
  assumes "(if falsyTok c then b else c) = Some t"
    and "verifyToken now t (JWT_REFRESH_SECRET cfg) = Inr uid"
    and "status (fst (refreshToken_handler cfg now c b db)) = 200"
  obtains u where "u \<in> set db" and "idU u = uid" and "refreshToken u = Some t"
proof -
  from assms(3,1) obtain uid' u
    where v: "verifyToken now t (JWT_REFRESH_SECRET cfg) = Inr uid'"
      and f: "find (\<lambda>u. idU u = uid' \<and> refreshToken u = Some t) db = Some u"
    by (rule refresh_200D)
  from v assms(2) have "uid' = uid" by simp
  with find_Some_set [OF f] find_Some_holds [OF f] show thesis by (intro that [of u]) simp_all
qed

lemma at_most_one_accepted_refresh_token:
  assumes "distinct (map idU db)"
    and "(if falsyTok c1 then b1 else c1) = Some t1"
    and "verifyToken n1 t1 (JWT_REFRESH_SECRET cfg) = Inr uid"
    and "status (fst (refreshToken_handler cfg n1 c1 b1 db)) = 200"
    and "(if falsyTok c2 then b2 else c2) = Some t2"
    and "verifyToken n2 t2 (JWT_REFRESH_SECRET cfg) = Inr uid"
    and "status (fst (refreshToken_handler cfg n2 c2 b2 db)) = 200"
  shows "t1 = t2"
proof -
  from assms(2-4) obtain u1 where u1: "u1 \<in> set db" "idU u1 = uid" "refreshToken u1 = Some t1"
    by (rule accepted_refresh_token_is_stored)
  from assms(5-7) obtain u2 where u2: "u2 \<in> set db" "idU u2 = uid" "refreshToken u2 = Some t2"
    by (rule accepted_refresh_token_is_stored)
  from assms(1) have "inj_on idU (set db)" by (simp add: distinct_map)
  with u1(1,2) u2(1,2) have "u1 = u2" by (auto dest: inj_onD)
  with u1(3) u2(3) show ?thesis by simp
qed

text \<open>
  C4, as the code has it. Each credential event leaves no refresh token on the rows of
  its user: \<^verbatim>\<open>logout\<close> for a resolved caller, \<^verbatim>\<open>changeMyPassword\<close> with the right current
  password and a new password that the length policy accepts, and every
  \<^verbatim>\<open>resetPassword\<close> that answers 200, for the subject of its token. Once the column is
  cleared no refresh token of that user is accepted: a token that still verifies is
  answered 401 \<^verbatim>\<open>Invalid refresh token\<close>, whether it comes in the cookie or in the body.
  On a table with distinct ids at most one refresh token of a user is live: two tokens
  of one user that the refresh handler accepts on the same table are the same token.
  Every sequence of requests keeps the ids distinct.
\<close>

theorem refresh_token_cleared_by_credential_events:
  "(u \<in> set db \<and> idU u \<noteq> [] \<longrightarrow>
      status (fst (logout now (Some (idU u)) db)) = 200 \<and>
      (\<forall>r \<in> set (snd (logout now (Some (idU u)) db)). idU r = idU u \<longrightarrow> refreshToken r = None)) \<and>
   (find (\<lambda>r. idU r = uid) db = Some u \<and>
    \<not> falsy currentPassword \<and> comparePassword (the currentPassword) (password u) \<and>
    \<not> falsy newPassword \<and> validatePassword (the newPassword) \<longrightarrow>
      status (fst (changeMyPassword now salt uid currentPassword newPassword db)) = 200 \<and>
      (\<forall>r \<in> set (snd (changeMyPassword now salt uid currentPassword newPassword db)).
         idU r = uid \<longrightarrow> refreshToken r = None)) \<and>
   (status (fst (resetPassword cfg now salt token newPassword db)) = 200 \<longrightarrow>
      (\<exists>t uid. token = Some t \<and> verifyToken now t (JWT_SECRET cfg) = Inr uid \<and>
         (\<forall>r \<in> set (snd (resetPassword cfg now salt token newPassword db)).
            idU r = uid \<longrightarrow> refreshToken r = None))) \<and>
   ((\<forall>r \<in> set db'. idU r = uid \<longrightarrow> refreshToken r = None) \<and>
    verifyToken now' t' (JWT_REFRESH_SECRET cfg) = Inr uid \<longrightarrow>
      refreshToken_handler cfg now' None (Some t') db' = (SessionInvalid, db') \<and>
      refreshToken_handler cfg now' (Some t') None db' = (SessionInvalid, db')) \<and>
   (distinct (map idU dbu) \<and>
    (if falsyTok c1 then b1 else c1) = Some t1 \<and>
    verifyToken n1 t1 (JWT_REFRESH_SECRET cfg) = Inr uid \<and>
    status (fst (refreshToken_handler cfg n1 c1 b1 dbu)) = 200 \<and>
    (if falsyTok c2 then b2 else c2) = Some t2 \<and>
    verifyToken n2 t2 (JWT_REFRESH_SECRET cfg) = Inr uid \<and>
    status (fst (refreshToken_handler cfg n2 c2 b2 dbu)) = 200 \<longrightarrow>
      t1 = t2) \<and>
   (distinct (map idU dbu) \<longrightarrow> distinct (map idU (run ve cfg ks dbu)))"
proof (intro conjI impI; (elim conjE)?)
  assume m: "u \<in> set db" and n: "idU u \<noteq> []"
  show "status (fst (logout now (Some (idU u)) db)) = 200"
    unfolding logout_known_user [OF m n] by (simp add: successResponse_def)
  show "\<forall>r \<in> set (snd (logout now (Some (idU u)) db)). idU r = idU u \<longrightarrow> refreshToken r = None"
    unfolding logout_known_user [OF m n] snd_conv by (rule cleared_after_update) simp
next
  assume a: "find (\<lambda>r. idU r = uid) db = Some u" "\<not> falsy currentPassword"
    "comparePassword (the currentPassword) (password u)" "\<not> falsy newPassword"
    "validatePassword (the newPassword)"
  note eq = changeMyPassword_success [where salt = salt and now = now, OF a(2,4,5,1,3)]
  show "status (fst (changeMyPassword now salt uid currentPassword newPassword db)) = 200"
    unfolding eq by (simp add: successResponse_def)
  show "\<forall>r \<in> set (snd (changeMyPassword now salt uid currentPassword newPassword db)).
         idU r = uid \<longrightarrow> refreshToken r = None"
    unfolding eq snd_conv by (rule cleared_after_update) simp
next
  assume "status (fst (resetPassword cfg now salt token newPassword db)) = 200"
  then obtain t uid u where t: "token = Some t" and p: "\<not> falsy newPassword"
      "validatePassword (the newPassword)"
    and v: "verifyToken now t (JWT_SECRET cfg) = Inr uid"
    and f: "find (\<lambda>u. idU u = uid \<and> resetToken u = Some t \<and>
                 (case resetTokenExpiry u of None \<Rightarrow> False | Some e \<Rightarrow> now < e)) db = Some u"
    by (rule resetPassword_200D)
  have "\<forall>r \<in> set (snd (resetPassword cfg now salt token newPassword db)).
            idU r = uid \<longrightarrow> refreshToken r = None"
    unfolding t resetPassword_success [where salt = salt, OF p v f] snd_conv
    by (rule cleared_after_update) simp
  with t v show "\<exists>t uid. token = Some t \<and> verifyToken now t (JWT_SECRET cfg) = Inr uid \<and>
         (\<forall>r \<in> set (snd (resetPassword cfg now salt token newPassword db)).
            idU r = uid \<longrightarrow> refreshToken r = None)"
    by blast
next
  assume c: "\<forall>r \<in> set db'. idU r = uid \<longrightarrow> refreshToken r = None"
    and v: "verifyToken now' t' (JWT_REFRESH_SECRET cfg) = Inr uid"
  have t: "\<not> falsyTok (Some t')" using v by (rule verifyToken_Inr_truthy)
  show "refreshToken_handler cfg now' None (Some t') db' = (SessionInvalid, db')"
    by (rule refresh_when_cleared [OF _ v c]) simp
  show "refreshToken_handler cfg now' (Some t') None db' = (SessionInvalid, db')"
    by (rule refresh_when_cleared [OF _ v c]) (simp only: t if_False)
next
  assume "distinct (map idU dbu)"
    and "(if falsyTok c1 then b1 else c1) = Some t1"
    and "verifyToken n1 t1 (JWT_REFRESH_SECRET cfg) = Inr uid"
    and "status (fst (refreshToken_handler cfg n1 c1 b1 dbu)) = 200"
    and "(if falsyTok c2 then b2 else c2) = Some t2"
    and "verifyToken n2 t2 (JWT_REFRESH_SECRET cfg) = Inr uid"
    and "status (fst (refreshToken_handler cfg n2 c2 b2 dbu)) = 200"
  then show "t1 = t2" by (rule at_most_one_accepted_refresh_token)
next
  assume "distinct (map idU dbu)"
  then show "distinct (map idU (run ve cfg ks dbu))" by (rule run_keeps_ids_distinct)
qed

theorem refresh_token_cleared_by_credential_events_witness:
  "refreshToken alice = Some (generateRefreshToken cfg0 2000 ''u1'') \<and>
   map refreshToken (snd (logout 9000 (Some ''u1'') db0)) = [None, None] \<and>
   map refreshToken
     (snd (changeMyPassword 9000 ''s7'' ''u1'' (Some ''secret1'') (Some ''newpass1'') db0)) =
     [None, None] \<and>
   map refreshToken
     (snd (resetPassword cfg0 9000 ''s7'' (Some (generateResetToken cfg0 3000 ''u1''))
        (Some ''newpass1'') db0)) = [None, None] \<and>
   refreshToken_handler cfg0 9500 None (Some (generateRefreshToken cfg0 2000 ''u1''))
     (snd (logout 9000 (Some ''u1'') db0)) =
     (SessionInvalid, snd (logout 9000 (Some ''u1'') db0)) \<and>
   distinct (map idU db0) \<and>
   status (fst (refreshToken_handler cfg0 5000 None
      (Some (generateRefreshToken cfg0 2000 ''u1'')) db0)) = 200 \<and>
   status (fst (refreshToken_handler cfg0 6000 (Some (generateRefreshToken cfg0 2000 ''u1''))
      None db0)) = 200 \<and>
   distinct (map idU (run hasAt cfg0
      [Register 20000 ''u3'' ''s3'' (Some ''c@d.org'') (Some ''hunter2x'') (Some ''C'')
         (Some ''carol''),
       Login 30000 (Some ''c@d.org'') (Some ''hunter2x'')] db0))"
proof -
  have i: "idU alice = ''u1''" by (simp add: alice_def)
  have h1: "alice \<in> set db0 \<and> idU alice \<noteq> []" by (simp add: db0_def alice_def)
  have h2: "find (\<lambda>r. idU r = ''u1'') db0 = Some alice \<and>
    \<not> falsy (Some ''secret1'') \<and> comparePassword (the (Some ''secret1'')) (password alice) \<and>
    \<not> falsy (Some ''newpass1'') \<and> validatePassword (the (Some ''newpass1''))"
    by (simp add: db0_def alice_def falsy_def hashPassword_def validatePassword_def)
  have h3: "status (fst (resetPassword cfg0 9000 ''s7'' (Some (generateResetToken cfg0 3000 ''u1''))
        (Some ''newpass1'') db0)) = 200"
    by (simp add: resetPassword_def generateResetToken_def jwt_sign_def cfg0_def db0_def alice_def
        bob_def falsy_def validatePassword_def user_update_def successResponse_def)
  have lo: "snd (logout 9000 (Some ''u1'') db0) =
      [alice\<lparr>refreshToken := None, updatedAt := 9000\<rparr>, bob]"
    by (simp add: logout_def falsy_def user_update_def db0_def alice_def bob_def)
  have h4: "(\<forall>r \<in> set (snd (logout 9000 (Some ''u1'') db0)). idU r = ''u1'' \<longrightarrow> refreshToken r = None) \<and>
    verifyToken 9500 (generateRefreshToken cfg0 2000 ''u1'') (JWT_REFRESH_SECRET cfg0) = Inr ''u1''"
    unfolding lo by (simp add: generateRefreshToken_def jwt_sign_def cfg0_def bob_def)
  note th = refresh_token_cleared_by_credential_events [where u = alice and db = db0
      and now = 9000 and uid = "''u1''" and salt = "''s7''" and cfg = cfg0
      and currentPassword = "Some ''secret1''" and newPassword = "Some ''newpass1''"
      and token = "Some (generateResetToken cfg0 3000 ''u1'')"
      and db' = "snd (logout 9000 (Some ''u1'') db0)" and now' = 9500
      and t' = "generateRefreshToken cfg0 2000 ''u1''"
      and dbu = db0 and ?c1.0 = None and ?b1.0 = "Some (generateRefreshToken cfg0 2000 ''u1'')"
      and ?t1.0 = "generateRefreshToken cfg0 2000 ''u1''" and ?n1.0 = 5000
      and ?c2.0 = "Some (generateRefreshToken cfg0 2000 ''u1'')" and ?b2.0 = None
      and ?t2.0 = "generateRefreshToken cfg0 2000 ''u1''" and ?n2.0 = 6000
      and ve = hasAt
      and ks = "[Register 20000 ''u3'' ''s3'' (Some ''c@d.org'') (Some ''hunter2x'') (Some ''C'')
         (Some ''carol''),
       Login 30000 (Some ''c@d.org'') (Some ''hunter2x'')]"]
  note a = th [THEN conjunct1, rule_format, OF h1]
  note b = th [THEN conjunct2, THEN conjunct1, rule_format, OF h2]
  note c = th [THEN conjunct2, THEN conjunct2, THEN conjunct1, rule_format, OF h3]
  note d = th [THEN conjunct2, THEN conjunct2, THEN conjunct2, THEN conjunct1, rule_format,
      OF h4]
  have dis: "distinct (map idU db0)" by (simp add: db0_def alice_def bob_def)
  have acc1: "status (fst (refreshToken_handler cfg0 5000 None
      (Some (generateRefreshToken cfg0 2000 ''u1'')) db0)) = 200"
    by (simp add: refreshToken_handler_def Let_def db0_def alice_def bob_def cfg0_def
        user_update_def generateRefreshToken_def jwt_sign_def successResponse_def)
  have acc2: "status (fst (refreshToken_handler cfg0 6000
      (Some (generateRefreshToken cfg0 2000 ''u1'')) None db0)) = 200"
    by (simp add: refreshToken_handler_def Let_def db0_def alice_def bob_def cfg0_def
        user_update_def generateRefreshToken_def jwt_sign_def successResponse_def)
  have h5: "distinct (map idU db0) \<and>
    (if falsyTok None then Some (generateRefreshToken cfg0 2000 ''u1'') else None) =
      Some (generateRefreshToken cfg0 2000 ''u1'') \<and>
    verifyToken 5000 (generateRefreshToken cfg0 2000 ''u1'') (JWT_REFRESH_SECRET cfg0) = Inr ''u1'' \<and>
    status (fst (refreshToken_handler cfg0 5000 None
      (Some (generateRefreshToken cfg0 2000 ''u1'')) db0)) = 200 \<and>
    (if falsyTok (Some (generateRefreshToken cfg0 2000 ''u1'')) then None
     else Some (generateRefreshToken cfg0 2000 ''u1'')) =
      Some (generateRefreshToken cfg0 2000 ''u1'') \<and>
    verifyToken 6000 (generateRefreshToken cfg0 2000 ''u1'') (JWT_REFRESH_SECRET cfg0) = Inr ''u1'' \<and>
    status (fst (refreshToken_handler cfg0 6000 (Some (generateRefreshToken cfg0 2000 ''u1''))
      None db0)) = 200"
    using dis acc1 acc2 by (simp add: generateRefreshToken_def jwt_sign_def cfg0_def)
  note e = th [THEN conjunct2, THEN conjunct2, THEN conjunct2, THEN conjunct2, THEN conjunct1,
      rule_format, OF h5]
  note f = th [THEN conjunct2, THEN conjunct2, THEN conjunct2, THEN conjunct2, THEN conjunct2,
      rule_format, OF dis]
  have cp: "map refreshToken
     (snd (changeMyPassword 9000 ''s7'' ''u1'' (Some ''secret1'') (Some ''newpass1'') db0)) =
     [None, None]"
    by (simp add: changeMyPassword_def falsy_def validatePassword_def user_update_def db0_def
        alice_def bob_def hashPassword_def)
  have rp: "map refreshToken
     (snd (resetPassword cfg0 9000 ''s7'' (Some (generateResetToken cfg0 3000 ''u1''))
        (Some ''newpass1'') db0)) = [None, None]"
    by (simp add: resetPassword_def generateResetToken_def jwt_sign_def cfg0_def db0_def alice_def
        bob_def falsy_def validatePassword_def user_update_def)
  have first: "refreshToken alice = Some (generateRefreshToken cfg0 2000 ''u1'')"
    by (simp add: alice_def)
  have last: "refreshToken_handler cfg0 9500 None (Some (generateRefreshToken cfg0 2000 ''u1''))
     (snd (logout 9000 (Some ''u1'') db0)) =
     (SessionInvalid, snd (logout 9000 (Some ''u1'') db0))"
    using d by (rule conjunct1)
  have lg: "map refreshToken (snd (logout 9000 (Some ''u1'') db0)) = [None, None]"
    using a unfolding lo by (simp add: bob_def)
  from first lg cp rp last dis acc1 acc2 f b c e show ?thesis by (intro conjI)
qed

text \<open>
  C4 as stated fails for a password change with the right current password and a new
  password shorter than 6 characters: the length guard answers 400 first and Alice's
  refresh token stays where it is.
\<close>

theorem changeMyPassword_short_new_password_counterexample:
  "find (\<lambda>r. idU r = ''u1'') db0 = Some alice \<and>
   comparePassword ''secret1'' (password alice) \<and>
   refreshToken alice = Some (Jwt ''u1'' 2 604802 ''refresh-secret'') \<and>
   changeMyPassword 9000 ''s7'' ''u1'' (Some ''secret1'') (Some ''abc'') db0 =
     (errorResponse ''New password must be at least 6 characters'' 400, db0)"
  by (simp add: changeMyPassword_def falsy_def validatePassword_def db0_def alice_def
      hashPassword_def generateRefreshToken_def jwt_sign_def cfg0_def)

section \<open>Failing reset tokens\<close>

lemma resetNotStored_iff:
  "resetNotStored uid t db \<longleftrightarrow> (\<forall>u \<in> set db. idU u = uid \<longrightarrow> resetToken u \<noteq> Some t)"
  unfolding resetNotStored_def find_None_iff by blast

lemma user_update_keeps_reset_out:
  assumes "user_update now x g db = Some db'" and "resetNotStored uid t db"
    and "\<And>u. idU (g u) = idU u"
    and "\<And>u. resetToken (g u) = resetToken u \<or> resetToken (g u) \<noteq> Some t"
  shows "resetNotStored uid t db'"
proof -
  from assms(1) have eq: "db' = map (\<lambda>u. if idU u = x then (g u)\<lparr>updatedAt := now\<rparr> else u) db"
    unfolding user_update_def by (simp split: option.splits)
  show ?thesis unfolding resetNotStored_iff
  proof (intro ballI impI)
    fix r assume "r \<in> set db'" and i: "idU r = uid"
    then obtain u where u: "u \<in> set db"
      and r: "r = (if idU u = x then (g u)\<lparr>updatedAt := now\<rparr> else u)"
      unfolding eq set_map by (elim imageE)
    show "resetToken r \<noteq> Some t"
    proof (cases "idU u = x")
      case True
      with r have r': "r = (g u)\<lparr>updatedAt := now\<rparr>" by simp
      with i assms(3) [of u] have "idU u = uid" by simp
      with u assms(2) have "resetToken u \<noteq> Some t" unfolding resetNotStored_iff by blast
      with assms(4) [of u] r' show ?thesis by auto
    next
      case False
      with r i u assms(2) show ?thesis unfolding resetNotStored_iff by simp
    qed
  qed
qed

lemma fresh_reset_token_differs:
  "iat < now div 1000 \<Longrightarrow> generateResetToken cfg now x \<noteq> Jwt uid iat ex key"
  by (simp add: generateResetToken_def jwt_sign_def)

lemma login_keeps_reset_out:
  assumes "resetNotStored uid t db"
  shows "resetNotStored uid t (snd (login cfg now em pw db))"
  using assms unfolding login_unfold Let_def
  by (auto split: option.splits elim!: user_update_keeps_reset_out)

lemma logout_keeps_reset_out:
  assumes "resetNotStored uid t db"
  shows "resetNotStored uid t (snd (logout now userId db))"
  using assms unfolding logout_def
  by (auto split: option.splits elim!: user_update_keeps_reset_out)

lemma refresh_keeps_reset_out:
  assumes "resetNotStored uid t db"
  shows "resetNotStored uid t (snd (refreshToken_handler cfg now c b db))"
  using assms unfolding refreshToken_handler_def Let_def
  by (auto split: option.splits sum.splits jwt_error.splits elim!: user_update_keeps_reset_out)

lemma forgotPassword_keeps_reset_out:
  assumes "resetNotStored uid (Jwt uid iat ex key) db" and "iat < now div 1000"
  shows "resetNotStored uid (Jwt uid iat ex key) (snd (forgotPassword ve cfg now em db))"
  using assms unfolding forgotPassword_def Let_def
  by (auto split: option.splits elim!: user_update_keeps_reset_out
      simp: fresh_reset_token_differs)

lemma resetPassword_keeps_reset_out:
  assumes "resetNotStored uid t db"
  shows "resetNotStored uid t (snd (resetPassword cfg now salt token newPassword db))"
  using assms unfolding resetPassword_def
  by (auto split: option.splits sum.splits elim!: user_update_keeps_reset_out)

lemma changeMyPassword_keeps_reset_out:
  assumes "resetNotStored uid t db"
  shows "resetNotStored uid t
           (snd (changeMyPassword now salt reqUserId currentPassword newPassword db))"
  using assms unfolding changeMyPassword_def
  by (auto split: option.splits elim!: user_update_keeps_reset_out)

lemma user_create_keeps_reset_out:
  assumes "user_create now cuid em h nm un db = Some (u, db1)" and "resetNotStored uid t db"
  shows "resetNotStored uid t db1"
proof -
  from assms(1) have "db1 = db @ [newUser now cuid em h nm un]"
    unfolding user_create_def Let_def by (auto split: if_splits)
  with assms(2) show ?thesis unfolding resetNotStored_iff by (auto simp: newUser_def)
qed

lemma register_keeps_reset_out:
  assumes "resetNotStored uid t db"
  shows "resetNotStored uid t (snd (register ve cfg now cuid salt em pw nm un db))"
  using assms unfolding register_def Let_def
  by (auto split: option.splits elim!: user_update_keeps_reset_out
      dest: user_create_keeps_reset_out)

lemma handle_keeps_reset_out:
  assumes "resetNotStored uid (Jwt uid iat ex key) db" and "iat < clock k div 1000"
  shows "resetNotStored uid (Jwt uid iat ex key) (snd (handle ve cfg k db))"
  using assms
  by (cases k)
     (simp_all add: register_keeps_reset_out login_keeps_reset_out logout_keeps_reset_out
        refresh_keeps_reset_out forgotPassword_keeps_reset_out resetPassword_keeps_reset_out
        changeMyPassword_keeps_reset_out)

lemma run_keeps_reset_out:
  assumes "resetNotStored uid (Jwt uid iat ex key) db"
    and "\<forall>k \<in> set ks. iat < clock k div 1000"
  shows "resetNotStored uid (Jwt uid iat ex key) (run ve cfg ks db)"
  using assms
proof (induction ks arbitrary: db)
  case Nil
  then show ?case by simp
next
  case (Cons k ks)
  from Cons.prems have "resetNotStored uid (Jwt uid iat ex key) (snd (handle ve cfg k db))"
    by (intro handle_keeps_reset_out) simp_all
  with Cons.prems show ?case by (simp add: Cons.IH)
qed

lemma consumed_reset_token_not_stored:
  assumes "fst (resetPassword cfg now salt (Some (Jwt uid iat ex key)) newPassword db) =
             successResponse JNull ''Password reset successful'' 200"
  shows "resetNotStored uid (Jwt uid iat ex key)
           (snd (resetPassword cfg now salt (Some (Jwt uid iat ex key)) newPassword db))"
proof -
  let ?t = "Jwt uid iat ex key"
  from assms have "status (fst (resetPassword cfg now salt (Some ?t) newPassword db)) = 200"
    by (simp add: successResponse_def)
  then obtain t' uid' u where t': "Some ?t = Some t'" and p: "\<not> falsy newPassword"
      "validatePassword (the newPassword)"
    and v: "verifyToken now t' (JWT_SECRET cfg) = Inr uid'"
    and f: "find (\<lambda>u. idU u = uid' \<and> resetToken u = Some t' \<and>
                 (case resetTokenExpiry u of None \<Rightarrow> False | Some e \<Rightarrow> now < e)) db = Some u"
    by (rule resetPassword_200D)
  from t' have tt: "t' = ?t" by simp
  from v tt have same: "uid' = uid" by (simp split: if_splits)
  note eq = resetPassword_success [where salt = salt, OF p v [unfolded tt same] f [unfolded tt same]]
  show ?thesis unfolding resetNotStored_iff
  proof (intro ballI impI)
    fix r assume a: "r \<in> set (snd (resetPassword cfg now salt (Some ?t) newPassword db))"
      and i: "idU r = uid"
    from a have "r \<in> set (map (\<lambda>r. if idU r = uid
               then r\<lparr>password := hashPassword salt (the newPassword), resetToken := None,
                      resetTokenExpiry := None, refreshToken := None, updatedAt := now\<rparr>
               else r) db)"
      unfolding eq snd_conv .
    from this i obtain x where "r = x\<lparr>password := hashPassword salt (the newPassword),
          resetToken := None, resetTokenExpiry := None, refreshToken := None, updatedAt := now\<rparr>"
      by (rule updated_row)
    then show "resetToken r \<noteq> Some ?t" by simp
  qed
qed

lemma resetPassword_when_not_stored:
  assumes "\<not> falsy newPassword" and "validatePassword (the newPassword)"
    and "resetNotStored uid (Jwt uid iat ex key) db"
  shows "resetPassword cfg now salt (Some (Jwt uid iat ex key)) newPassword db =
           (InvalidOrExpiredResetToken, db)"
proof (cases "verifyToken now (Jwt uid iat ex key) (JWT_SECRET cfg)")
  case (Inl e)
  then show ?thesis by (intro resetPassword_verify_fails assms(1,2)) simp_all
next
  case (Inr uid')
  then have same: "uid' = uid" by (simp split: if_splits)
  from assms(3) have "find (\<lambda>u. idU u = uid \<and> resetToken u = Some (Jwt uid iat ex key) \<and>
                 (case resetTokenExpiry u of None \<Rightarrow> False | Some e \<Rightarrow> now < e)) db = None"
    unfolding resetNotStored_iff find_None_iff by blast
  with Inr same show ?thesis by (intro resetPassword_no_row assms(1,2)) simp_all
qed

text \<open>
  C6, as the code has it. For a call that presents a token and a new password of at
  least 6 characters, every failure is the one answer 400
  \<^verbatim>\<open>Invalid or expired reset token\<close> with the table untouched: when the token does not
  verify (bad signature, malformed, or past its own \<^verbatim>\<open>exp\<close>); when no row of the subject
  stores this token with an expiry in the future (another token, none at all, or an
  expired one); and when the token has been used: after a successful reset the same
  token fails at once, and it still fails after any further requests \<open>ks\<close> that are
  served in clock seconds later than the one the token was issued in. The call has no
  third outcome.
\<close>

theorem resetPassword_single_error_kind:
  assumes "\<not> falsyTok (Some t)" and "\<not> falsy newPassword" and "validatePassword (the newPassword)"
  shows "(\<forall>e. verifyToken now t (JWT_SECRET cfg) = Inl e \<longrightarrow>
            resetPassword cfg now salt (Some t) newPassword db = (InvalidOrExpiredResetToken, db)) \<and>
         (\<forall>uid. verifyToken now t (JWT_SECRET cfg) = Inr uid \<and>
            (\<forall>u \<in> set db. idU u = uid \<longrightarrow>
               resetToken u \<noteq> Some t \<or>
               (case resetTokenExpiry u of None \<Rightarrow> True | Some x \<Rightarrow> x \<le> now)) \<longrightarrow>
            resetPassword cfg now salt (Some t) newPassword db = (InvalidOrExpiredResetToken, db)) \<and>
         (resetPassword cfg now salt (Some t) newPassword db = (InvalidOrExpiredResetToken, db) \<or>
          fst (resetPassword cfg now salt (Some t) newPassword db) =
            successResponse JNull ''Password reset successful'' 200) \<and>
         (\<forall>uid iat ex key ve ks now' salt' newPassword'.
            t = Jwt uid iat ex key \<and>
            fst (resetPassword cfg now salt (Some t) newPassword db) =
              successResponse JNull ''Password reset successful'' 200 \<and>
            (\<forall>k \<in> set ks. iat < clock k div 1000) \<and>
            \<not> falsy newPassword' \<and> validatePassword (the newPassword') \<longrightarrow>
            resetPassword cfg now' salt' (Some t) newPassword'
                (run ve cfg ks (snd (resetPassword cfg now salt (Some t) newPassword db))) =
              (InvalidOrExpiredResetToken,
               run ve cfg ks (snd (resetPassword cfg now salt (Some t) newPassword db))))"
proof (intro conjI allI impI)
  fix e assume "verifyToken now t (JWT_SECRET cfg) = Inl e"
  then show "resetPassword cfg now salt (Some t) newPassword db = (InvalidOrExpiredResetToken, db)"
    by (rule resetPassword_verify_fails [OF assms])
next
  fix uid
  assume a: "verifyToken now t (JWT_SECRET cfg) = Inr uid \<and>
            (\<forall>u \<in> set db. idU u = uid \<longrightarrow>
               resetToken u \<noteq> Some t \<or>
               (case resetTokenExpiry u of None \<Rightarrow> True | Some x \<Rightarrow> x \<le> now))"
  then have "find (\<lambda>u. idU u = uid \<and> resetToken u = Some t \<and>
                 (case resetTokenExpiry u of None \<Rightarrow> False | Some e \<Rightarrow> now < e)) db = None"
    unfolding find_None_iff by (fastforce split: option.splits)
  with a show "resetPassword cfg now salt (Some t) newPassword db = (InvalidOrExpiredResetToken, db)"
    by (intro resetPassword_no_row [OF assms(2,3)]) simp_all
next
  show "resetPassword cfg now salt (Some t) newPassword db = (InvalidOrExpiredResetToken, db) \<or>
          fst (resetPassword cfg now salt (Some t) newPassword db) =
            successResponse JNull ''Password reset successful'' 200"
  proof (cases "verifyToken now t (JWT_SECRET cfg)")
    case (Inl e)
    then show ?thesis by (simp add: resetPassword_verify_fails [OF assms])
  next
    case (Inr uid)
    show ?thesis
    proof (cases "find (\<lambda>u. idU u = uid \<and> resetToken u = Some t \<and>
                 (case resetTokenExpiry u of None \<Rightarrow> False | Some e \<Rightarrow> now < e)) db")
      case None
      with Inr show ?thesis by (simp add: resetPassword_no_row [OF assms(2,3)])
    next
      case (Some u)
      with Inr show ?thesis by (simp add: resetPassword_success [OF assms(2,3)])
    qed
  qed
next
  fix uid iat ex key ve ks now' salt' newPassword'
  assume a: "t = Jwt uid iat ex key \<and>
            fst (resetPassword cfg now salt (Some t) newPassword db) =
              successResponse JNull ''Password reset successful'' 200 \<and>
            (\<forall>k \<in> set ks. iat < clock k div 1000) \<and>
            \<not> falsy newPassword' \<and> validatePassword (the newPassword')"
  let ?db1 = "snd (resetPassword cfg now salt (Some t) newPassword db)"
  from a have tt: "t = Jwt uid iat ex key" by (rule conjunct1)
  from a have ok: "fst (resetPassword cfg now salt (Some t) newPassword db) =
      successResponse JNull ''Password reset successful'' 200" by blast
  from a have later: "\<forall>k \<in> set ks. iat < clock k div 1000" by blast
  from a have q: "\<not> falsy newPassword'" "validatePassword (the newPassword')" by blast+
  from ok have "resetNotStored uid (Jwt uid iat ex key) ?db1"
    unfolding tt by (rule consumed_reset_token_not_stored)
  then have "resetNotStored uid (Jwt uid iat ex key) (run ve cfg ks ?db1)"
    using later by (rule run_keeps_reset_out)
  with q show "resetPassword cfg now' salt' (Some t) newPassword' (run ve cfg ks ?db1) =
      (InvalidOrExpiredResetToken, run ve cfg ks ?db1)"
    unfolding tt by (rule resetPassword_when_not_stored)
qed

theorem resetPassword_single_error_kind_witness:
  "resetPassword cfg0 10000 ''s9'' (Some (Opaque ''garbage'')) (Some ''newpass1'') db0 =
     (InvalidOrExpiredResetToken, db0) \<and>
   resetPassword cfg0 4000000 ''s9'' (Some (generateResetToken cfg0 3000 ''u1'')) (Some ''newpass1'') db0 =
     (InvalidOrExpiredResetToken, db0) \<and>
   resetPassword cfg0 10000 ''s9'' (Some (generateResetToken cfg0 2000 ''u1'')) (Some ''newpass1'') db0 =
     (InvalidOrExpiredResetToken, db0) \<and>
   fst (resetPassword cfg0 10000 ''s9'' (Some (generateResetToken cfg0 3000 ''u1'')) (Some ''newpass1'') db0) =
     successResponse JNull ''Password reset successful'' 200 \<and>
   fst (resetPassword cfg0 11000 ''s8'' (Some (generateResetToken cfg0 3000 ''u1'')) (Some ''another2'')
     (snd (resetPassword cfg0 10000 ''s9'' (Some (generateResetToken cfg0 3000 ''u1''))
        (Some ''newpass1'') db0))) = InvalidOrExpiredResetToken \<and>
   fst (resetPassword cfg0 14000 ''s8'' (Some (generateResetToken cfg0 3000 ''u1'')) (Some ''another2'')
     (run hasAt cfg0
        [ForgotPassword 12000 (Some ''a@b.com''), Login 13000 (Some ''a@b.com'') (Some ''newpass1'')]
        (snd (resetPassword cfg0 10000 ''s9'' (Some (generateResetToken cfg0 3000 ''u1''))
           (Some ''newpass1'') db0)))) = InvalidOrExpiredResetToken"
proof -
  let ?ks = "[ForgotPassword 12000 (Some ''a@b.com''),
              Login 13000 (Some ''a@b.com'') (Some ''newpass1'')]"
  have p1: "\<not> falsy (Some ''newpass1'')" and p2: "validatePassword (the (Some ''newpass1''))"
    and q1: "\<not> falsy (Some ''another2'')" and q2: "validatePassword (the (Some ''another2''))"
    by (simp_all add: falsy_def validatePassword_def)
  have t1: "\<not> falsyTok (Some (Opaque ''garbage''))" by simp
  have t2: "\<not> falsyTok (Some (generateResetToken cfg0 3000 ''u1''))"
    and t3: "\<not> falsyTok (Some (generateResetToken cfg0 2000 ''u1''))"
    by (simp_all add: generateResetToken_def jwt_sign_def)
  have v1: "verifyToken 10000 (Opaque ''garbage'') (JWT_SECRET cfg0) = Inl JsonWebTokenError"
    by simp
  have v2: "verifyToken 4000000 (generateResetToken cfg0 3000 ''u1'') (JWT_SECRET cfg0) =
      Inl TokenExpiredError"
    by (simp add: generateResetToken_def jwt_sign_def)
  have v3: "verifyToken 10000 (generateResetToken cfg0 2000 ''u1'') (JWT_SECRET cfg0) = Inr ''u1'' \<and>
      (\<forall>u \<in> set db0. idU u = ''u1'' \<longrightarrow>
         resetToken u \<noteq> Some (generateResetToken cfg0 2000 ''u1'') \<or>
         (case resetTokenExpiry u of None \<Rightarrow> True | Some x \<Rightarrow> x \<le> 10000))"
    by (simp add: generateResetToken_def jwt_sign_def cfg0_def db0_def alice_def bob_def)
  have ok: "fst (resetPassword cfg0 10000 ''s9'' (Some (generateResetToken cfg0 3000 ''u1''))
      (Some ''newpass1'') db0) = successResponse JNull ''Password reset successful'' 200"
    by (simp add: resetPassword_def generateResetToken_def jwt_sign_def cfg0_def db0_def alice_def
        bob_def falsy_def validatePassword_def user_update_def)
  have shape: "generateResetToken cfg0 3000 ''u1'' = Jwt ''u1'' 3 3603 (JWT_SECRET cfg0)"
    by (simp add: generateResetToken_def jwt_sign_def)
  have later0: "\<forall>k \<in> set []. (3::nat) < clock k div 1000" by simp
  have later: "\<forall>k \<in> set ?ks. (3::nat) < clock k div 1000" by simp
  note a = resetPassword_single_error_kind [OF t1 p1 p2, where now = 10000 and cfg = cfg0
      and salt = "''s9''" and db = db0, THEN conjunct1, rule_format, OF v1]
  note b = resetPassword_single_error_kind [OF t2 p1 p2, where now = 4000000 and cfg = cfg0
      and salt = "''s9''" and db = db0, THEN conjunct1, rule_format, OF v2]
  note c = resetPassword_single_error_kind [OF t3 p1 p2, where now = 10000 and cfg = cfg0
      and salt = "''s9''" and db = db0, THEN conjunct2, THEN conjunct1, rule_format, OF v3]
  note d = resetPassword_single_error_kind [OF t2 p1 p2, where now = 10000 and cfg = cfg0
      and salt = "''s9''" and db = db0, THEN conjunct2, THEN conjunct2, THEN conjunct2,
      rule_format, OF conjI [OF shape conjI [OF ok conjI [OF later0 conjI [OF q1 q2]]]],
      where now' = 11000 and salt' = "''s8''" and ve = hasAt]
  note e = resetPassword_single_error_kind [OF t2 p1 p2, where now = 10000 and cfg = cfg0
      and salt = "''s9''" and db = db0, THEN conjunct2, THEN conjunct2, THEN conjunct2,
      rule_format, OF conjI [OF shape conjI [OF ok conjI [OF later conjI [OF q1 q2]]]],
      where now' = 14000 and salt' = "''s8''" and ve = hasAt]
  from a b c ok d e show ?thesis by simp
qed

text \<open>
  The clock condition on the further requests is needed: a \<^verbatim>\<open>forgotPassword\<close> for the
  same user in the second in which the used token was issued builds the same string
  again and stores it, and the used token is accepted once more.
\<close>

lemma consumed_reset_token_revived_in_issuing_second:
  "fst (resetPassword cfg0 3500 ''s9'' (Some (generateResetToken cfg0 3000 ''u1''))
      (Some ''newpass1'') db0) = successResponse JNull ''Password reset successful'' 200 \<and>
   fst (resetPassword cfg0 5000 ''s8'' (Some (generateResetToken cfg0 3000 ''u1'')) (Some ''another2'')
     (run hasAt cfg0 [ForgotPassword 3900 (Some ''a@b.com'')]
        (snd (resetPassword cfg0 3500 ''s9'' (Some (generateResetToken cfg0 3000 ''u1''))
           (Some ''newpass1'') db0)))) = successResponse JNull ''Password reset successful'' 200"
  by (simp add: resetPassword_def forgotPassword_def Let_def generateResetToken_def jwt_sign_def
      cfg0_def db0_def alice_def bob_def falsy_def validatePassword_def user_update_def hasAt_def)

text \<open>
  C6 as stated fails for the call whose token is missing from the request (or is the
  empty string): the first guard of the handler answers it, with another message.
\<close>

theorem resetPassword_without_token_counterexample:
  "resetPassword cfg0 10000 ''s9'' None (Some ''newpass1'') db0 =
     (errorResponse ''Token and new password are required'' 400, db0) \<and>
   resetPassword cfg0 10000 ''s9'' (Some (Opaque [])) (Some ''newpass1'') db0 =
     (errorResponse ''Token and new password are required'' 400, db0) \<and>
   errorResponse ''Token and new password are required'' 400 \<noteq> InvalidOrExpiredResetToken"
  by (simp add: resetPassword_def InvalidOrExpiredResetToken_def errorResponse_def)

section \<open>What the middleware attaches\<close>

text \<open>
  When \<^verbatim>\<open>optionalAuth\<close> or \<^verbatim>\<open>authenticate\<close> attaches a user, it is the active row that
  the lookup by id finds: the caller that \<^verbatim>\<open>logout\<close> and \<^verbatim>\<open>changeMyPassword\<close> act for.
\<close>

lemma optionalAuth_resolves:
  assumes "optionalAuth cfg now bearer cookieToken db = Some u"
  shows "find (\<lambda>r. idU r = idU u) db = Some u \<and> isActive u"
proof -
  let ?tok = "if falsyTok bearer then cookieToken else bearer"
  from assms obtain uid where v: "verifyToken now (the ?tok) (JWT_SECRET cfg) = Inr uid"
    unfolding optionalAuth_def Let_def
    by (cases "verifyToken now (the ?tok) (JWT_SECRET cfg)") (simp_all split: if_splits)
  from assms v obtain w where f: "find (\<lambda>r. idU r = uid) db = Some w"
    unfolding optionalAuth_def Let_def
    by (cases "find (\<lambda>r. idU r = uid) db") (simp_all split: if_splits)
  from assms v f have w: "w = u" and act: "isActive u"
    unfolding optionalAuth_def Let_def by (simp_all split: if_splits)
  from find_Some_holds [OF f] w have "idU u = uid" by simp
  with f w act show ?thesis by simp
qed

lemma authenticate_resolves:
  assumes "authenticate cfg now bearer cookieToken db = Inr u"
  shows "find (\<lambda>r. idU r = idU u) db = Some u \<and> isActive u"
proof -
  let ?tok = "if falsyTok bearer then cookieToken else bearer"
  from assms obtain uid where v: "verifyToken now (the ?tok) (JWT_SECRET cfg) = Inr uid"
    unfolding authenticate_def Let_def
    by (cases "verifyToken now (the ?tok) (JWT_SECRET cfg)")
       (simp_all split: if_splits jwt_error.splits)
  from assms v obtain w where f: "find (\<lambda>r. idU r = uid) db = Some w"
    unfolding authenticate_def Let_def
    by (cases "find (\<lambda>r. idU r = uid) db") (simp_all split: if_splits)
  from assms v f have w: "w = u" and act: "isActive u"
    unfolding authenticate_def Let_def by (simp_all split: if_splits)
  from find_Some_holds [OF f] w have "idU u = uid" by simp
  with f w act show ?thesis by simp
qed

end
